theory Spec2Isabelle
  imports Main "HOL-Library.Sublist"
begin

section \<open>Strings\<close>

text \<open>
  JavaScript strings are modelled as \<^typ>\<open>string\<close>: one \<^typ>\<open>char\<close> per code unit, which
  covers the code units below 256. Every character the program inspects (the identifier
  alphabet, the markup delimiters, the entity references, the separators) is ASCII. The
  text extraction of the fallback strategy, which also asks of every code unit whether it
  is white space or a line terminator, is given over all code units as well.
\<close>

text \<open>\<^verbatim>\<open>String.prototype.includes\<close>: the argument occurs as a contiguous part.\<close>

fun includesStr :: "'a list \<Rightarrow> 'a list \<Rightarrow> bool" where
  "includesStr [] sub = (sub = [])"
| "includesStr (c # cs) sub = (prefix sub (c # cs) \<or> includesStr cs sub)"

text \<open>
  White space and line terminators as \<^verbatim>\<open>String.prototype.trim\<close> sees them, among the code
  units below 256: TAB, LF, VT, FF, CR, SPACE and NBSP.
\<close>

definition isWhiteSpace :: "char \<Rightarrow> bool" where
  "isWhiteSpace c =
     (c \<in> set [CHR 0x09, CHR 0x0A, CHR 0x0B, CHR 0x0C, CHR 0x0D, CHR 0x20, CHR 0xA0])"

definition trim :: "string \<Rightarrow> string" where
  "trim s = rev (dropWhile isWhiteSpace (rev (dropWhile isWhiteSpace s)))"

text \<open>\<^verbatim>\<open>Array.prototype.join\<close> with a separator.\<close>

fun joinWith :: "'a list \<Rightarrow> 'a list list \<Rightarrow> 'a list" where
  "joinWith sep [] = []"
| "joinWith sep [x] = x"
| "joinWith sep (x # y # ys) = x @ sep @ joinWith sep (y # ys)"

text \<open>Decimal rendering of a non-negative integer, as a template literal renders a number.\<close>

definition digitChar :: "nat \<Rightarrow> char" where
  "digitChar d = char_of (48 + d)"

fun showNat :: "nat \<Rightarrow> string" where
  "showNat n = (if n < 10 then [digitChar n] else showNat (n div 10) @ [digitChar (n mod 10)])"

declare showNat.simps [simp del]

section \<open>Errors\<close>

text \<open>
  The two members of the SDK's \<^verbatim>\<open>ErrorCode\<close> that the program uses, and the values it
  throws and catches: an \<^verbatim>\<open>McpError(code, message)\<close> built by the program, or any other
  thrown value, of which only the \<^verbatim>\<open>message\<close> property is ever read (\<open>None\<close> when the
  property is undefined; the source casts every caught value to \<^verbatim>\<open>Error\<close>).
\<close>

datatype error_code = InternalError | InvalidParams

datatype js_error = McpError error_code string | Error "string option"

text \<open>
  What the platform and the libraries provide. The SDK class \<^verbatim>\<open>McpError\<close>, the URL parser,
  \<^verbatim>\<open>path.join\<close> and the temporary directory are not part of the program, so they are
  parameters: \<open>mcpMessage\<close> is the \<^verbatim>\<open>message\<close> property of \<^verbatim>\<open>new McpError(code, msg)\<close>,
  \<open>newURL\<close> is \<^verbatim>\<open>new URL(input)\<close> (\<open>None\<close> when it throws), \<open>cacheDir\<close> is
  \<^verbatim>\<open>CONFIG.cacheDir\<close> and \<open>proxyUrl\<close> is \<^verbatim>\<open>CONFIG.proxyUrl\<close>.
\<close>

record url =
  hostname :: string
  pathname :: string
  searchParams :: "(string \<times> string) list"

record platform =
  mcpMessage :: "error_code \<Rightarrow> string \<Rightarrow> string"
  newURL :: "string \<Rightarrow> url option"
  pathJoin :: "string \<Rightarrow> string \<Rightarrow> string"
  cacheDir :: string
  proxyUrl :: "string option"

text \<open>The \<^verbatim>\<open>message\<close> property of a caught value.\<close>

fun message :: "platform \<Rightarrow> js_error \<Rightarrow> string option" where
  "message P (McpError c m) = Some (mcpMessage P c m)"
| "message P (Error m) = m"

text \<open>\<^verbatim>\<open>x || d\<close> on a string that may be undefined: the empty string is falsy too.\<close>

fun orElse :: "string option \<Rightarrow> string \<Rightarrow> string" where
  "orElse None d = d"
| "orElse (Some s) d = (if s = [] then d else s)"

text \<open>A string that may be undefined, interpolated into a template literal.\<close>

fun interpolate :: "string option \<Rightarrow> string" where
  "interpolate None = ''undefined''"
| "interpolate (Some s) = s"

text \<open>Truthiness of a \<^verbatim>\<open>string | null\<close> value: \<^verbatim>\<open>null\<close> and the empty string are falsy.\<close>

fun truthy :: "string option \<Rightarrow> bool" where
  "truthy None = False"
| "truthy (Some s) = (s \<noteq> [])"

section \<open>Configuration\<close>

definition maxRetries :: nat where
  "maxRetries = 3"

definition retryBaseDelay :: nat where
  "retryBaseDelay = 1000"

definition cacheTTL :: int where
  "cacheTTL = 24 * 60 * 60 * 1000"

section \<open>Identifier normalisation: \<^verbatim>\<open>extractYoutubeId\<close>\<close>

text \<open>The character class \<^verbatim>\<open>[a-zA-Z0-9_-]\<close> and the test \<^verbatim>\<open>/^[a-zA-Z0-9_-]{11}$/\<close>.\<close>

definition idChar :: "char \<Rightarrow> bool" where
  "idChar c = (c \<in> set (''abcdefghijklmnopqrstuvwxyz'' @ ''ABCDEFGHIJKLMNOPQRSTUVWXYZ''
                          @ ''0123456789'' @ ''_-''))"

definition isVideoId :: "string \<Rightarrow> bool" where
  "isVideoId s = (length s = 11 \<and> list_all idChar s)"

text \<open>\<^verbatim>\<open>url.searchParams.get(name)\<close>: the first value stored under the name, if any.\<close>

definition searchGet :: "url \<Rightarrow> string \<Rightarrow> string option" where
  "searchGet u name = map_of (searchParams u) name"

text \<open>\<^verbatim>\<open>s.slice(1).split('?')[0]\<close>: drop the first code unit, keep what precedes the first
  question mark.\<close>

definition shortLinkId :: "string \<Rightarrow> string" where
  "shortLinkId p = takeWhile (\<lambda>c. c \<noteq> CHR ''?'') (drop 1 p)"

text \<open>
  The body of the \<^verbatim>\<open>try\<close> block. It returns a value (\<open>Inr (Some id)\<close>), falls through to
  the statement after the \<^verbatim>\<open>try\<close> (\<open>Inr None\<close>), or throws (\<open>Inl\<close>): the URL constructor
  throws on a string that is not a URL, and the \<^verbatim>\<open>throw\<close> for a missing \<^verbatim>\<open>v\<close> parameter
  stands inside the block, so the \<^verbatim>\<open>catch\<close> clause receives it as well.
\<close>

definition extractYoutubeId_try :: "platform \<Rightarrow> string \<Rightarrow> js_error + string option" where
  "extractYoutubeId_try P input =
     (case newURL P input of
        None \<Rightarrow> Inl (Error (Some ''Invalid URL''))
      | Some u \<Rightarrow>
          if hostname u = ''youtu.be'' then Inr (Some (shortLinkId (pathname u)))
          else if includesStr (hostname u) ''youtube.com'' then
            (let videoId = searchGet u ''v'' in
             if \<not> truthy videoId
             then Inl (McpError InvalidParams (''Invalid YouTube URL: '' @ input))
             else Inr videoId)
          else Inr None)"

definition extractYoutubeId :: "platform \<Rightarrow> string \<Rightarrow> js_error + string" where
  "extractYoutubeId P input =
     (if input = [] then Inl (McpError InvalidParams ''YouTube URL or ID is required'')
      else
        case extractYoutubeId_try P input of
          Inr (Some videoId) \<Rightarrow> Inr videoId
        | Inr None \<Rightarrow> Inl (McpError InvalidParams (''Could not extract video ID from: '' @ input))
        | Inl error \<Rightarrow>
            if \<not> isVideoId input
            then Inl (McpError InvalidParams (''Invalid YouTube video ID: '' @ input))
            else Inr input)"

section \<open>Regular expressions\<close>

text \<open>
  The program's regular expressions are sequences of three kinds of item: a literal, a
  greedy star over a character class (\<^verbatim>\<open>[^>]*\<close>), and a lazy star over a character class
  (\<^verbatim>\<open>.*?\<close>). \<open>matchHere\<close> is the backtracking matcher anchored at the start of the
  input: it tries the alternatives in the engine's priority order (a greedy star the longest
  repetition first, a lazy star the shortest first) and returns the input left after the
  first successful match.
\<close>

datatype 'a rx = Lit "'a list" | Star "'a \<Rightarrow> bool" | LazyStar "'a \<Rightarrow> bool"

fun matchHere :: "'a rx list \<Rightarrow> 'a list \<Rightarrow> 'a list option" where
  "matchHere [] s = Some s"
| "matchHere (Lit l # r) s = (if prefix l s then matchHere r (drop (length l) s) else None)"
| "matchHere (Star p # r) [] = matchHere r []"
| "matchHere (Star p # r) (c # cs) =
     (if p c then
        (case matchHere (Star p # r) cs of
           Some rest \<Rightarrow> Some rest
         | None \<Rightarrow> matchHere r (c # cs))
      else matchHere r (c # cs))"
| "matchHere (LazyStar p # r) [] = matchHere r []"
| "matchHere (LazyStar p # r) (c # cs) =
     (case matchHere r (c # cs) of
        Some rest \<Rightarrow> Some rest
      | None \<Rightarrow> if p c then matchHere (LazyStar p # r) cs else None)"

text \<open>
  \<^verbatim>\<open>s.match(/r/g)\<close>: the matches found scanning from left to right, each search resuming
  where the previous match ended (one code unit further after an empty match). The counter
  is the number of code units of the previous match that are still to be passed.
\<close>

fun matchScan :: "'a rx list \<Rightarrow> nat \<Rightarrow> 'a list \<Rightarrow> 'a list list" where
  "matchScan r k [] = (if k = 0 \<and> matchHere r [] \<noteq> None then [[]] else [])"
| "matchScan r (Suc k) (c # cs) = matchScan r k cs"
| "matchScan r 0 (c # cs) =
     (case matchHere r (c # cs) of
        None \<Rightarrow> matchScan r 0 cs
      | Some rest \<Rightarrow>
          (let n = length (c # cs) - length rest
           in take n (c # cs) # matchScan r (n - 1) cs))"

text \<open>\<^verbatim>\<open>s.match(/r/g) || []\<close>: no match gives \<^verbatim>\<open>null\<close>, replaced by the empty array.\<close>

definition matchAll :: "'a rx list \<Rightarrow> 'a list \<Rightarrow> 'a list list" where
  "matchAll r s = matchScan r 0 s"

text \<open>\<^verbatim>\<open>s.replace(/r/g, rep)\<close> for a replacement text without \<^verbatim>\<open>$\<close>.\<close>

fun replaceScan :: "'a rx list \<Rightarrow> 'a list \<Rightarrow> nat \<Rightarrow> 'a list \<Rightarrow> 'a list" where
  "replaceScan r rep k [] = (if k = 0 \<and> matchHere r [] \<noteq> None then rep else [])"
| "replaceScan r rep (Suc k) (c # cs) = replaceScan r rep k cs"
| "replaceScan r rep 0 (c # cs) =
     (case matchHere r (c # cs) of
        None \<Rightarrow> c # replaceScan r rep 0 cs
      | Some rest \<Rightarrow>
          (let n = length (c # cs) - length rest
           in if n = 0 then rep @ c # replaceScan r rep 0 cs
              else rep @ replaceScan r rep (n - 1) cs))"

definition replaceAll :: "'a rx list \<Rightarrow> 'a list \<Rightarrow> 'a list \<Rightarrow> 'a list" where
  "replaceAll r rep s = replaceScan r rep 0 s"

section \<open>Transcript text\<close>

text \<open>\<^verbatim>\<open>formatTranscript\<close>; \<open>lineText\<close> is the field \<^verbatim>\<open>text\<close> of a line, whose timing
  fields are never read.\<close>

record transcript_line =
  lineText :: string
  start :: int
  dur :: int

definition formatTranscript :: "transcript_line list \<Rightarrow> string" where
  "formatTranscript transcript =
     joinWith '' '' (filter (\<lambda>t. length t > 0) (map (\<lambda>line. trim (lineText line)) transcript))"

text \<open>
  The fallback strategy's treatment of a response body: \<^verbatim>\<open>/<text[^>]*>(.*?)<\/text>/g\<close>
  finds the lines (the dot matches every code unit but a line terminator),
  \<^verbatim>\<open>/<[^>]*>/g\<close> removes the tags of each, and five replacements follow one another.
\<close>

definition isLineTerminator :: "char \<Rightarrow> bool" where
  "isLineTerminator c = (c = CHR 0x0A \<or> c = CHR 0x0D)"

definition textSpanRx :: "char rx list" where
  "textSpanRx = [Lit ''<text'', Star (\<lambda>c. c \<noteq> CHR ''>''), Lit ''>'',
                 LazyStar (\<lambda>c. \<not> isLineTerminator c), Lit ''</text>'']"

definition tagRx :: "char rx list" where
  "tagRx = [Lit ''<'', Star (\<lambda>c. c \<noteq> CHR ''>''), Lit ''>'']"

definition unescapeEntities :: "string \<Rightarrow> string" where
  "unescapeEntities content =
     replaceAll [Lit ''&#39;''] [CHR 0x27]
       (replaceAll [Lit ''&quot;''] [CHR 0x22]
         (replaceAll [Lit ''&gt;''] ''>''
           (replaceAll [Lit ''&lt;''] ''<''
             (replaceAll [Lit ''&amp;''] ''&'' content))))"

definition lineContent :: "string \<Rightarrow> string" where
  "lineContent line = unescapeEntities (trim (replaceAll tagRx [] line))"

definition extractTextContent :: "string \<Rightarrow> string" where
  "extractTextContent xml = joinWith '' '' (map lineContent (matchAll textSpanRx xml))"











section \<open>The world outside the program\<close>

text \<open>
  A cache file holds what \<^verbatim>\<open>JSON.stringify\<close> made of a \<^verbatim>\<open>CachedTranscript\<close>, which
  \<^verbatim>\<open>JSON.parse\<close> gives back, or something that \<^verbatim>\<open>JSON.parse\<close> rejects.
\<close>

record cached_transcript =
  transcript :: string
  timestamp :: int

datatype file_content = CacheJson cached_transcript | Corrupt

text \<open>The calls of \<^verbatim>\<open>console.error\<close>, one constructor per call site.\<close>

datatype log_entry =
    LogInitFailed
  | LogUsingCached string string
  | LogCacheWriteFailed
  | LogRetry nat nat nat
  | LogAttemptFailed nat
  | LogTryingFallback
  | LogFallbackFailed
  | LogPrimaryMethodFailed
  | LogFallbackMethodFailed

text \<open>
  What the orchestrator does to the outside besides the cache: a delay in milliseconds, an
  invocation of the primary strategy (video identifier, language, proxy) and the request
  of the fallback strategy (address, proxy).
\<close>

datatype effect =
    Sleep nat
  | GetSubtitles string string "string option"
  | Fetch string "string option"

text \<open>
  The state: the instance's flag, the file system (whether the cache directory exists, the
  files by path, and which operations the system refuses), what was written to the console,
  and the delays and network calls made so far, oldest first.
\<close>

record world =
  cacheInitialized :: bool
  dirExists :: bool
  files :: "string \<Rightarrow> file_content option"
  mkdirFails :: bool
  readFails :: "string \<Rightarrow> bool"
  writeFails :: "string \<Rightarrow> bool"
  unlinkFails :: "string \<Rightarrow> bool"
  console :: "log_entry list"
  effects :: "effect list"

text \<open>
  The file system calls. A recursive \<^verbatim>\<open>mkdir\<close> succeeds on a directory that exists; a file
  is read, written or removed only inside a directory that exists. The messages of the
  errors are the system's and are never read by the program.
\<close>

definition fs_mkdir :: "world \<Rightarrow> (js_error + unit) \<times> world" where
  "fs_mkdir w =
     (if dirExists w then (Inr (), w)
      else if mkdirFails w then (Inl (Error (Some ''EACCES'')), w)
      else (Inr (), w\<lparr>dirExists := True\<rparr>))"

definition fs_readFile :: "string \<Rightarrow> world \<Rightarrow> js_error + file_content" where
  "fs_readFile p w =
     (if dirExists w \<and> \<not> readFails w p
      then (case files w p of Some c \<Rightarrow> Inr c | None \<Rightarrow> Inl (Error (Some ''ENOENT'')))
      else Inl (Error (Some ''EIO'')))"

definition fs_writeFile :: "string \<Rightarrow> file_content \<Rightarrow> world \<Rightarrow> (js_error + unit) \<times> world" where
  "fs_writeFile p c w =
     (if dirExists w \<and> \<not> writeFails w p
      then (Inr (), w\<lparr>files := (files w)(p \<mapsto> c)\<rparr>)
      else (Inl (Error (Some ''EIO'')), w))"

definition fs_unlink :: "string \<Rightarrow> world \<Rightarrow> (js_error + unit) \<times> world" where
  "fs_unlink p w =
     (if dirExists w \<and> \<not> unlinkFails w p \<and> files w p \<noteq> None
      then (Inr (), w\<lparr>files := (files w)(p := None)\<rparr>)
      else (Inl (Error (Some ''EIO'')), w))"

definition jsonParse :: "file_content \<Rightarrow> js_error + cached_transcript" where
  "jsonParse c = (case c of CacheJson d \<Rightarrow> Inr d | Corrupt \<Rightarrow> Inl (Error (Some ''SyntaxError'')))"

definition log :: "log_entry \<Rightarrow> world \<Rightarrow> world" where
  "log l w = w\<lparr>console := console w @ [l]\<rparr>"

definition perform :: "effect \<Rightarrow> world \<Rightarrow> world" where
  "perform e w = w\<lparr>effects := effects w @ [e]\<rparr>"

section \<open>The cache\<close>

definition cacheFilePath :: "platform \<Rightarrow> string \<Rightarrow> string \<Rightarrow> string" where
  "cacheFilePath P videoId lang = pathJoin P (cacheDir P) (videoId @ ''_'' @ lang @ ''.json'')"

definition initializeCache :: "world \<Rightarrow> (js_error + unit) \<times> world" where
  "initializeCache w =
     (if cacheInitialized w then (Inr (), w)
      else
        case fs_mkdir w of
          (Inr _, w1) \<Rightarrow> (Inr (), w1\<lparr>cacheInitialized := True\<rparr>)
        | (Inl error, w1) \<Rightarrow> (Inr (), log LogInitFailed w1))"

text \<open>
  The \<^verbatim>\<open>try\<close> block of \<^verbatim>\<open>getCachedTranscript\<close>; \<open>now\<close> is what \<^verbatim>\<open>Date.now()\<close> returns
  when the block reads it.
\<close>

definition getCachedTranscript_try ::
  "platform \<Rightarrow> int \<Rightarrow> string \<Rightarrow> string \<Rightarrow> world \<Rightarrow> (js_error + string option) \<times> world" where
  "getCachedTranscript_try P now videoId lang w =
     (let cacheFilePath = cacheFilePath P videoId lang in
      case fs_readFile cacheFilePath w of
        Inl error \<Rightarrow> (Inl error, w)
      | Inr fileContent \<Rightarrow>
          (case jsonParse fileContent of
             Inl error \<Rightarrow> (Inl error, w)
           | Inr cachedData \<Rightarrow>
               if now - timestamp cachedData < cacheTTL
               then (Inr (Some (transcript cachedData)), log (LogUsingCached videoId lang) w)
               else
                 (case fs_unlink cacheFilePath w of
                    (Inl error, w1) \<Rightarrow> (Inl error, w1)
                  | (Inr _, w1) \<Rightarrow> (Inr None, w1))))"

definition getCachedTranscript ::
  "platform \<Rightarrow> int \<Rightarrow> string \<Rightarrow> string \<Rightarrow> world \<Rightarrow> (js_error + string option) \<times> world" where
  "getCachedTranscript P now videoId lang w =
     (case initializeCache w of
        (Inl error, w1) \<Rightarrow> (Inl error, w1)
      | (Inr _, w1) \<Rightarrow>
          (case getCachedTranscript_try P now videoId lang w1 of
             (Inl error, w2) \<Rightarrow> (Inr None, w2)
           | (Inr result, w2) \<Rightarrow> (Inr result, w2)))"

definition cacheTranscript ::
  "platform \<Rightarrow> int \<Rightarrow> string \<Rightarrow> string \<Rightarrow> string \<Rightarrow> world \<Rightarrow> (js_error + unit) \<times> world" where
  "cacheTranscript P now videoId lang transcript' w =
     (case initializeCache w of
        (Inl error, w1) \<Rightarrow> (Inl error, w1)
      | (Inr _, w1) \<Rightarrow>
          (let cacheData = \<lparr>transcript = transcript', timestamp = now\<rparr> in
           case fs_writeFile (cacheFilePath P videoId lang) (CacheJson cacheData) w1 of
             (Inl error, w2) \<Rightarrow> (Inr (), log LogCacheWriteFailed w2)
           | (Inr _, w2) \<Rightarrow> (Inr (), w2)))"

section \<open>The fetch strategies\<close>

text \<open>
  What the network does is given from outside. For the primary strategy: what building the
  request options and awaiting \<^verbatim>\<open>getSubtitles\<close> end in, the lines or a thrown value. For
  the fallback strategy: building the options or \<^verbatim>\<open>fetch\<close> throws, or \<^verbatim>\<open>fetch\<close> resolves
  to a response with its \<^verbatim>\<open>ok\<close> flag, its status, and what awaiting \<^verbatim>\<open>text()\<close> ends in.
  A thrown value has a \<^verbatim>\<open>message\<close> that is a string or undefined.
\<close>

datatype fetch_outcome =
    FetchRejected js_error
  | Response bool nat "js_error + string"

text \<open>
  One call of \<^verbatim>\<open>getTranscript\<close> reads the clock at most once in the cache lookup and at most
  once when it stores a result; it makes one primary call per attempt (numbered from 0) and
  at most one fallback call.
\<close>

record run =
  nowAtLookup :: int
  nowAtStore :: int
  subtitles :: "nat \<Rightarrow> js_error + transcript_line list"
  timedtext :: fetch_outcome

text \<open>The error that the \<^verbatim>\<open>catch\<close> clause of the primary strategy throws for a caught value.\<close>

definition fetchTranscriptWithCaptionsScraper_catch :: "platform \<Rightarrow> js_error \<Rightarrow> js_error" where
  "fetchTranscriptWithCaptionsScraper_catch P error =
     (let errorMsg = orElse (message P error) [] in
      if includesStr errorMsg ''429'' \<or>
         includesStr errorMsg ''too many requests'' \<or>
         includesStr errorMsg ''blocked'' \<or>
         includesStr errorMsg ''forbidden''
      then McpError InternalError
             (''YouTube might be rate limiting or blocking this IP: '' @ errorMsg)
      else McpError InternalError (''Primary transcript method failed: '' @ errorMsg))"

definition fetchTranscriptWithCaptionsScraper ::
  "platform \<Rightarrow> js_error + transcript_line list \<Rightarrow> string \<Rightarrow> string \<Rightarrow> world
     \<Rightarrow> (js_error + string) \<times> world" where
  "fetchTranscriptWithCaptionsScraper P outcome videoId lang w =
     (let w1 = perform (GetSubtitles videoId lang (proxyUrl P)) w in
      case outcome of
        Inr subtitleLines \<Rightarrow> (Inr (formatTranscript subtitleLines), w1)
      | Inl error \<Rightarrow>
          (Inl (fetchTranscriptWithCaptionsScraper_catch P error),
           log LogPrimaryMethodFailed w1))"

definition fetchTranscriptWithFallbackMethod_try ::
  "platform \<Rightarrow> fetch_outcome \<Rightarrow> string \<Rightarrow> string \<Rightarrow> world \<Rightarrow> (js_error + string) \<times> world" where
  "fetchTranscriptWithFallbackMethod_try P outcome videoId lang w =
     (let url = ''https://www.youtube.com/api/timedtext?v='' @ videoId @ ''&lang='' @ lang;
          w1 = perform (Fetch url (proxyUrl P)) w in
      case outcome of
        FetchRejected error \<Rightarrow> (Inl error, w1)
      | Response ok status body \<Rightarrow>
          if \<not> ok then (Inl (Error (Some (''HTTP error! status: '' @ showNat status))), w1)
          else
            (case body of
               Inl error \<Rightarrow> (Inl error, w1)
             | Inr xml \<Rightarrow> (Inr (extractTextContent xml), w1)))"

definition fetchTranscriptWithFallbackMethod ::
  "platform \<Rightarrow> fetch_outcome \<Rightarrow> string \<Rightarrow> string \<Rightarrow> world \<Rightarrow> (js_error + string) \<times> world" where
  "fetchTranscriptWithFallbackMethod P outcome videoId lang w =
     (case fetchTranscriptWithFallbackMethod_try P outcome videoId lang w of
        (Inr result, w1) \<Rightarrow> (Inr result, w1)
      | (Inl error, w1) \<Rightarrow>
          (Inl (McpError InternalError
             (''Fallback transcript method failed: '' @ interpolate (message P error))),
           log LogFallbackMethodFailed w1))"

section \<open>The orchestrator: \<^verbatim>\<open>getTranscript\<close>\<close>

fun isMcpError :: "js_error \<Rightarrow> bool" where
  "isMcpError (McpError c m) = True"
| "isMcpError (Error m) = False"

fun code :: "js_error \<Rightarrow> error_code option" where
  "code (McpError c m) = Some c"
| "code (Error m) = None"

text \<open>The \<^verbatim>\<open>try\<close> block of the retry loop, for one value of \<^verbatim>\<open>attempt\<close>.\<close>

definition primaryAttempt ::
  "platform \<Rightarrow> run \<Rightarrow> string \<Rightarrow> string \<Rightarrow> nat \<Rightarrow> world \<Rightarrow> (js_error + string) \<times> world" where
  "primaryAttempt P R videoId lang attempt w =
     (let w1 = (if attempt > 0
                then (let delay = retryBaseDelay * 2 ^ (attempt - 1)
                      in perform (Sleep delay) (log (LogRetry (attempt + 1) maxRetries delay) w))
                else w) in
      case fetchTranscriptWithCaptionsScraper P (subtitles R attempt) videoId lang w1 of
        (Inl error, w2) \<Rightarrow> (Inl error, w2)
      | (Inr result, w2) \<Rightarrow>
          (case cacheTranscript P (nowAtStore R) videoId lang result w2 of
             (Inl error, w3) \<Rightarrow> (Inl error, w3)
           | (Inr _, w3) \<Rightarrow> (Inr result, w3)))"

text \<open>
  The three ways out of the \<^verbatim>\<open>for\<close> loop: the \<^verbatim>\<open>return\<close> in the \<^verbatim>\<open>try\<close> block, the
  \<^verbatim>\<open>throw\<close> in the \<^verbatim>\<open>catch\<close> clause, and the end of the loop, with \<^verbatim>\<open>lastError\<close>.
\<close>

datatype loop_exit = Returned string | Rethrown js_error | Exhausted "js_error option"

function primaryLoop ::
  "platform \<Rightarrow> run \<Rightarrow> string \<Rightarrow> string \<Rightarrow> nat \<Rightarrow> js_error option \<Rightarrow> world
     \<Rightarrow> loop_exit \<times> world" where
  "primaryLoop P R videoId lang attempt lastError w =
     (if attempt < maxRetries then
        (case primaryAttempt P R videoId lang attempt w of
           (Inr result, w1) \<Rightarrow> (Returned result, w1)
         | (Inl error, w1) \<Rightarrow>
             (let w2 = log (LogAttemptFailed (attempt + 1)) w1 in
              if isMcpError error \<and> code error \<noteq> Some InternalError
              then (Rethrown error, w2)
              else primaryLoop P R videoId lang (attempt + 1) (Some error) w2))
      else (Exhausted lastError, w))"
  by pat_completeness auto
termination
  by (relation "measure (\<lambda>(P, R, videoId, lang, attempt, lastError, w). maxRetries - attempt)") auto

declare primaryLoop.simps [simp del]

text \<open>What follows the loop: the fallback strategy, once.\<close>

definition fallbackAttempt ::
  "platform \<Rightarrow> run \<Rightarrow> string \<Rightarrow> string \<Rightarrow> world \<Rightarrow> (js_error + string) \<times> world" where
  "fallbackAttempt P R videoId lang w =
     (let w1 = log LogTryingFallback w in
      case fetchTranscriptWithFallbackMethod P (timedtext R) videoId lang w1 of
        (Inl error, w2) \<Rightarrow> (Inl error, w2)
      | (Inr result, w2) \<Rightarrow>
          (case cacheTranscript P (nowAtStore R) videoId lang result w2 of
             (Inl error, w3) \<Rightarrow> (Inl error, w3)
           | (Inr _, w3) \<Rightarrow> (Inr result, w3)))"

text \<open>\<^verbatim>\<open>getTranscript\<close> after the cache check.\<close>

definition getTranscript_fetch ::
  "platform \<Rightarrow> run \<Rightarrow> string \<Rightarrow> string \<Rightarrow> world \<Rightarrow> (js_error + string) \<times> world" where
  "getTranscript_fetch P R videoId lang w =
     (case primaryLoop P R videoId lang 0 None w of
        (Returned result, w1) \<Rightarrow> (Inr result, w1)
      | (Rethrown error, w1) \<Rightarrow> (Inl error, w1)
      | (Exhausted lastError, w1) \<Rightarrow>
          (case fallbackAttempt P R videoId lang w1 of
             (Inr result, w2) \<Rightarrow> (Inr result, w2)
           | (Inl fallbackError, w2) \<Rightarrow>
               (Inl (McpError InternalError
                  (''Failed to retrieve transcript after multiple attempts: ''
                   @ orElse (Option.bind lastError (message P)) ''Unknown error'')),
                log LogFallbackFailed w2)))"

definition getTranscript ::
  "platform \<Rightarrow> run \<Rightarrow> string \<Rightarrow> string \<Rightarrow> world \<Rightarrow> (js_error + string) \<times> world" where
  "getTranscript P R videoId lang w =
     (case getCachedTranscript P (nowAtLookup R) videoId lang w of
        (Inl error, w1) \<Rightarrow> (Inl error, w1)
      | (Inr cachedTranscript, w1) \<Rightarrow>
          (case cachedTranscript of
             None \<Rightarrow> getTranscript_fetch P R videoId lang w1
           | Some cached \<Rightarrow>
               if truthy cachedTranscript then (Inr cached, w1)
               else getTranscript_fetch P R videoId lang w1))"

section \<open>Notions used to state the properties\<close>

text \<open>
  The file system lets the cache file of a pair be created, read, written and removed: the
  directory exists or the next initialisation can create it, and no operation on the pair's
  path is refused.
\<close>

definition cacheUsable :: "platform \<Rightarrow> string \<Rightarrow> string \<Rightarrow> world \<Rightarrow> bool" where
  "cacheUsable P videoId lang w =
     ((dirExists w \<or> (\<not> cacheInitialized w \<and> \<not> mkdirFails w)) \<and>
      \<not> readFails w (cacheFilePath P videoId lang) \<and>
      \<not> writeFails w (cacheFilePath P videoId lang) \<and>
      \<not> unlinkFails w (cacheFilePath P videoId lang))"

text \<open>The delay, if any, that precedes the primary call of an attempt.\<close>

definition backoff :: "nat \<Rightarrow> effect list" where
  "backoff attempt = (if attempt > 0 then [Sleep (retryBaseDelay * 2 ^ (attempt - 1))] else [])"

text \<open>
  The fallback request does not yield a body: \<^verbatim>\<open>fetch\<close> rejects, the response is not
  \<^verbatim>\<open>ok\<close>, or reading its text rejects.
\<close>

definition fallbackFails :: "fetch_outcome \<Rightarrow> bool" where
  "fallbackFails outcome =
     (case outcome of
        FetchRejected error \<Rightarrow> True
      | Response ok status body \<Rightarrow> \<not> ok \<or> isl body)"

text \<open>The address that the fallback strategy requests.\<close>

definition timedtextUrl :: "string \<Rightarrow> string \<Rightarrow> string" where
  "timedtextUrl videoId lang =
     ''https://www.youtube.com/api/timedtext?v='' @ videoId @ ''&lang='' @ lang"














section \<open>Example values\<close>

text \<open>
  A platform for the examples: the SDK's message format, the URL parser's results on the
  four addresses used below (and on no other string), and POSIX path joining of two plain
  segments.
\<close>

definition demoURL :: "string \<Rightarrow> url option" where
  "demoURL s =
     (if s = ''https://youtu.be/abc''
      then Some \<lparr>hostname = ''youtu.be'', pathname = ''/abc'', searchParams = []\<rparr>
      else if s = ''https://www.youtube.com/watch?v=''
      then Some \<lparr>hostname = ''www.youtube.com'', pathname = ''/watch'',
                  searchParams = [(''v'', [])]\<rparr>
      else if s = ''https://www.youtube.com/watch?v=dQw4w9WgXcQ&t=1''
      then Some \<lparr>hostname = ''www.youtube.com'', pathname = ''/watch'',
                  searchParams = [(''v'', ''dQw4w9WgXcQ''), (''t'', ''1'')]\<rparr>
      else if s = ''https://www.youtube.com/playlist?list=PL1''
      then Some \<lparr>hostname = ''www.youtube.com'', pathname = ''/playlist'',
                  searchParams = [(''list'', ''PL1'')]\<rparr>
      else None)"

definition demoPlatform :: platform where
  "demoPlatform =
     \<lparr>mcpMessage = (\<lambda>c m. (case c of InternalError \<Rightarrow> ''MCP error -32603: ''
                                    | InvalidParams \<Rightarrow> ''MCP error -32602: '') @ m),
      newURL = demoURL,
      pathJoin = (\<lambda>a b. a @ ''/'' @ b),
      cacheDir = ''/tmp/youtube-transcript-cache'',
      proxyUrl = None\<rparr>"

text \<open>A world with no cache directory yet, and one that holds a fresh entry with an empty
  transcript for the pair used in the examples.\<close>

definition freshWorld :: world where
  "freshWorld =
     \<lparr>cacheInitialized = False, dirExists = False, files = (\<lambda>p. None), mkdirFails = False,
      readFails = (\<lambda>p. False), writeFails = (\<lambda>p. False), unlinkFails = (\<lambda>p. False),
      console = [], effects = []\<rparr>"

definition emptyEntryWorld :: world where
  "emptyEntryWorld =
     freshWorld\<lparr>dirExists := True,
       files := (\<lambda>p. if p = ''/tmp/youtube-transcript-cache/dQw4w9WgXcQ_en.json''
                      then Some (CacheJson \<lparr>transcript = [], timestamp = 0\<rparr>) else None)\<rparr>"

definition demoLines :: "transcript_line list" where
  "demoLines =
     [\<lparr>lineText = '' Hello '', start = 0, dur = 1\<rparr>,
      \<lparr>lineText = [], start = 1, dur = 1\<rparr>,
      \<lparr>lineText = ''world'', start = 2, dur = 1\<rparr>]"

text \<open>Three runs: the primary strategy succeeds at once, on the third attempt, or never
  (and then the fallback request is answered with status 404).\<close>

definition okRun :: run where
  "okRun = \<lparr>nowAtLookup = 1000, nowAtStore = 5000, subtitles = (\<lambda>k. Inr demoLines),
            timedtext = Response False 404 (Inr [])\<rparr>"

definition retryRun :: run where
  "retryRun =
     \<lparr>nowAtLookup = 1000, nowAtStore = 5000,
      subtitles = (\<lambda>k. if k < 2 then Inl (Error (Some ''429 too many requests''))
                        else Inr demoLines),
      timedtext = Response False 404 (Inr [])\<rparr>"

definition failingRun :: run where
  "failingRun =
     \<lparr>nowAtLookup = 1000, nowAtStore = 5000,
      subtitles = (\<lambda>k. Inl (Error (Some ''socket hang up''))),
      timedtext = Response False 404 (Inr [])\<rparr>"

text \<open>A run in which the primary strategy never succeeds and the fallback request is answered
  with a body of two elements.\<close>

definition fallbackRun :: run where
  "fallbackRun =
     \<lparr>nowAtLookup = 1000, nowAtStore = 5000,
      subtitles = (\<lambda>k. Inl (Error (Some ''socket hang up''))),
      timedtext = Response True 200
        (Inr ''<transcript><text start=1 dur=2> Hello &amp; </text><text>world</text></transcript>'')\<rparr>"

text \<open>
  A world whose file system is in order and whose cache directory, once created, has no
  subdirectory: a write to a path that lies below a subdirectory of the cache directory is
  refused, every other operation is served.
\<close>

definition flatDirWorld :: world where
  "flatDirWorld =
     freshWorld\<lparr>writeFails :=
       (\<lambda>p. CHR ''/'' \<in> set (drop (length ''/tmp/youtube-transcript-cache/'') p))\<rparr>"

section \<open>Properties of the identifier normalisation\<close>

lemma idChar_not_colon: "idChar c \<Longrightarrow> c \<noteq> CHR '':''"
  by (auto simp: idChar_def)

lemma colon_not_videoId: "CHR '':'' \<in> set s \<Longrightarrow> \<not> isVideoId s"
  by (auto simp: isVideoId_def list_all_iff dest: idChar_not_colon)

lemma videoId_nonempty: "isVideoId s \<Longrightarrow> s \<noteq> []"
  by (auto simp: isVideoId_def)

lemmas demo_url_defs = extractYoutubeId_def extractYoutubeId_try_def demoPlatform_def
  demoURL_def shortLinkId_def isVideoId_def searchGet_def idChar_def

text \<open>The branch for an input that is not a URL returns only what passes the pattern test.\<close>

lemma extractYoutubeId_raw_validated:
  assumes "newURL P input = None" "extractYoutubeId P input = Inr videoId"
  shows "videoId = input \<and> isVideoId videoId"
  using assms
  by (auto simp: extractYoutubeId_def extractYoutubeId_try_def split: if_splits)

text \<open>
  C6 does not hold of the code: the identifiers taken from a URL are returned without the
  pattern test that the branch for raw identifiers applies. The short link
  \<^verbatim>\<open>https://youtu.be/abc\<close> parses to the host \<^verbatim>\<open>youtu.be\<close> and the path \<^verbatim>\<open>/abc\<close>, and the
  normaliser returns \<^verbatim>\<open>abc\<close>, three characters long, although it rejects the same string
  \<^verbatim>\<open>abc\<close> given as a raw identifier. The identifier returned goes into the path of the
  cache file and into the address of the fallback request.
\<close>

theorem extractYoutubeId_short_link_unvalidated:
  "newURL demoPlatform ''https://youtu.be/abc'' =
     Some \<lparr>hostname = ''youtu.be'', pathname = ''/abc'', searchParams = []\<rparr> \<and>
   extractYoutubeId demoPlatform ''https://youtu.be/abc'' = Inr ''abc'' \<and>
   \<not> isVideoId ''abc'' \<and>
   extractYoutubeId demoPlatform ''abc'' =
     Inl (McpError InvalidParams ''Invalid YouTube video ID: abc'') \<and>
   cacheFilePath demoPlatform ''abc'' ''en'' = ''/tmp/youtube-transcript-cache/abc_en.json'' \<and>
   timedtextUrl ''abc'' ''en'' = ''https://www.youtube.com/api/timedtext?v=abc&lang=en''"
  by (simp add: demo_url_defs cacheFilePath_def timedtextUrl_def)

text \<open>
  C7, as stated, fails: \<^verbatim>\<open>https://www.youtube.com/watch?v=\<close> is a URL of the main domain
  with a \<^verbatim>\<open>v\<close> parameter, whose value is the empty string; the normaliser does not return
  that value but fails.
\<close>

theorem extractYoutubeId_empty_v_rejected:
  "newURL demoPlatform ''https://www.youtube.com/watch?v='' =
     Some \<lparr>hostname = ''www.youtube.com'', pathname = ''/watch'', searchParams = [(''v'', [])]\<rparr> \<and>
   searchGet \<lparr>hostname = ''www.youtube.com'', pathname = ''/watch'',
              searchParams = [(''v'', [])]\<rparr> ''v'' = Some [] \<and>
   extractYoutubeId demoPlatform ''https://www.youtube.com/watch?v='' =
     Inl (McpError InvalidParams ''Invalid YouTube video ID: https://www.youtube.com/watch?v='')"
  by (simp add: demo_url_defs)

text \<open>
  C7, amended: for a URL of the main domain (its host contains \<^verbatim>\<open>youtube.com\<close>, and so is
  not the short-link host) whose first \<^verbatim>\<open>v\<close> parameter has a non-empty value, the
  normaliser returns exactly that value; when the \<^verbatim>\<open>v\<close> parameter is missing or empty it
  fails with an \<^verbatim>\<open>McpError\<close> of code \<^verbatim>\<open>InvalidParams\<close> (the input, holding the colon of
  its scheme, is not an identifier). For an input that is not a URL and matches the
  11-character pattern, it returns the input unchanged.
\<close>

theorem extractYoutubeId_main_domain_and_raw:
  "(input \<noteq> [] \<and> newURL P input = Some u \<and> includesStr (hostname u) ''youtube.com'' \<longrightarrow>
      (\<forall>v. searchGet u ''v'' = Some v \<and> v \<noteq> [] \<longrightarrow> extractYoutubeId P input = Inr v) \<and>
      ((searchGet u ''v'' = None \<or> searchGet u ''v'' = Some []) \<and> CHR '':'' \<in> set input \<longrightarrow>
         extractYoutubeId P input =
           Inl (McpError InvalidParams (''Invalid YouTube video ID: '' @ input)))) \<and>
   (newURL P input = None \<and> isVideoId input \<longrightarrow> extractYoutubeId P input = Inr input)"
proof -
  have "\<not> includesStr ''youtu.be'' ''youtube.com''"
    by simp
  then have "includesStr (hostname u) ''youtube.com'' \<Longrightarrow> hostname u \<noteq> ''youtu.be''"
    by metis
  then show ?thesis
    by (auto simp: extractYoutubeId_def extractYoutubeId_try_def colon_not_videoId
        dest: videoId_nonempty)
qed

theorem extractYoutubeId_main_domain_and_raw_witness:
  "extractYoutubeId demoPlatform ''https://www.youtube.com/watch?v=dQw4w9WgXcQ&t=1'' =
     Inr ''dQw4w9WgXcQ'' \<and>
   extractYoutubeId demoPlatform ''https://www.youtube.com/playlist?list=PL1'' =
     Inl (McpError InvalidParams
       ''Invalid YouTube video ID: https://www.youtube.com/playlist?list=PL1'') \<and>
   extractYoutubeId demoPlatform ''dQw4w9WgXcQ'' = Inr ''dQw4w9WgXcQ''"
proof -
  let ?u1 = "\<lparr>hostname = ''www.youtube.com'', pathname = ''/watch'',
              searchParams = [(''v'', ''dQw4w9WgXcQ''), (''t'', ''1'')]\<rparr>"
  let ?u2 = "\<lparr>hostname = ''www.youtube.com'', pathname = ''/playlist'',
              searchParams = [(''list'', ''PL1'')]\<rparr>"
  have a: "extractYoutubeId demoPlatform ''https://www.youtube.com/watch?v=dQw4w9WgXcQ&t=1'' =
     Inr ''dQw4w9WgXcQ''"
    using extractYoutubeId_main_domain_and_raw
      [of "''https://www.youtube.com/watch?v=dQw4w9WgXcQ&t=1''" demoPlatform ?u1]
    by (simp add: demoPlatform_def demoURL_def searchGet_def)
  have b: "extractYoutubeId demoPlatform ''https://www.youtube.com/playlist?list=PL1'' =
     Inl (McpError InvalidParams
       ''Invalid YouTube video ID: https://www.youtube.com/playlist?list=PL1'')"
    using extractYoutubeId_main_domain_and_raw
      [of "''https://www.youtube.com/playlist?list=PL1''" demoPlatform ?u2]
    by (simp add: demoPlatform_def demoURL_def searchGet_def)
  have c: "extractYoutubeId demoPlatform ''dQw4w9WgXcQ'' = Inr ''dQw4w9WgXcQ''"
    using extractYoutubeId_main_domain_and_raw [of "''dQw4w9WgXcQ''" demoPlatform]
    by (simp add: demoPlatform_def demoURL_def isVideoId_def idChar_def)
  show ?thesis using a b c by simp
qed

section \<open>Properties of the cache\<close>

lemmas cache_defs = initializeCache_def fs_mkdir_def fs_readFile_def fs_writeFile_def
  fs_unlink_def jsonParse_def log_def getCachedTranscript_try_def getCachedTranscript_def
  cacheTranscript_def

lemma initializeCache_ok: "fst (initializeCache w) = Inr ()"
  by (simp add: initializeCache_def fs_mkdir_def)

lemma getCachedTranscript_ok: "\<exists>r. fst (getCachedTranscript P now v l w) = Inr r"
  by (simp add: cache_defs Let_def
      split: sum.splits option.splits file_content.splits prod.splits)

lemma cacheTranscript_ok: "fst (cacheTranscript P now v l t w) = Inr ()"
  by (simp add: cache_defs Let_def
      split: sum.splits option.splits file_content.splits prod.splits)

lemma cacheTranscript_case:
  "(case cacheTranscript P now v l t w of (Inl e, w3) \<Rightarrow> f e w3 | (Inr u, w3) \<Rightarrow> g u w3) =
     g () (snd (cacheTranscript P now v l t w))"
  using cacheTranscript_ok[of P now v l t w]
  by (cases "cacheTranscript P now v l t w") auto

lemma cacheTranscript_effects: "effects (snd (cacheTranscript P now v l t w)) = effects w"
  by (simp add: cache_defs Let_def
      split: sum.splits option.splits file_content.splits prod.splits)

lemma getCachedTranscript_effects: "effects (snd (getCachedTranscript P now v l w)) = effects w"
  by (simp add: cache_defs Let_def
      split: sum.splits option.splits file_content.splits prod.splits)

lemma getCachedTranscript_write_faults:
  "writeFails (snd (getCachedTranscript P now v l w)) = writeFails w"
  by (simp add: cache_defs Let_def
      split: sum.splits option.splits file_content.splits prod.splits)

lemma cacheTranscript_write_faults:
  "writeFails (snd (cacheTranscript P now v l t w)) = writeFails w"
  by (simp add: cache_defs Let_def
      split: sum.splits option.splits file_content.splits prod.splits)

lemma log_effects: "effects (log e w) = effects w"
  by (simp add: log_def)

lemma store_then_lookup:
  assumes "cacheUsable P v l w" "t - t0 < cacheTTL"
  shows "fst (getCachedTranscript P t v l (snd (cacheTranscript P t0 v l tx w))) =
           Inr (Some tx)"
  using assms by (auto simp add: cacheUsable_def cache_defs Let_def)

lemma store_usable:
  assumes "cacheUsable P v l w"
  shows "cacheUsable P v l (snd (cacheTranscript P t0 v l tx w))"
  using assms by (auto simp add: cacheUsable_def cache_defs Let_def)

lemma lookup_usable:
  assumes "cacheUsable P v l w"
  shows "cacheUsable P v l (snd (getCachedTranscript P t v l w))"
  using assms
  by (auto simp add: cacheUsable_def cache_defs Let_def
      split: option.splits file_content.splits)

lemma store_file:
  assumes "cacheUsable P v l w"
  shows "files (snd (cacheTranscript P t0 v l tx w)) (cacheFilePath P v l) =
           Some (CacheJson \<lparr>transcript = tx, timestamp = t0\<rparr>)"
  using assms by (auto simp add: cacheUsable_def cache_defs Let_def)

lemma lookup_expired:
  assumes "cacheUsable P v l w" "files w (cacheFilePath P v l) = Some (CacheJson d)"
    "cacheTTL \<le> t - timestamp d"
  shows "fst (getCachedTranscript P t v l w) = Inr None \<and>
         files (snd (getCachedTranscript P t v l w)) (cacheFilePath P v l) = None"
  using assms by (auto simp add: cacheUsable_def cache_defs Let_def)

lemma lookup_missing:
  assumes "files w (cacheFilePath P v l) = None"
  shows "fst (getCachedTranscript P t v l w) = Inr None"
  using assms by (auto simp add: cache_defs Let_def)

lemma lookup_unreadable:
  assumes "files w (cacheFilePath P v l) = None \<or>
           files w (cacheFilePath P v l) = Some Corrupt \<or>
           readFails w (cacheFilePath P v l)"
  shows "fst (getCachedTranscript P t v l w) = Inr None"
  using assms by (auto simp add: cache_defs Let_def split: option.splits)

lemma init_failure:
  assumes "\<not> cacheInitialized w" "\<not> dirExists w" "mkdirFails w"
  shows "getCachedTranscript P now v l w = (Inr None, log LogInitFailed w)"
    and "cacheTranscript P now v l tx w =
           (Inr (), log LogCacheWriteFailed (log LogInitFailed w))"
  using assms by (simp_all add: cache_defs Let_def)

lemma write_failure:
  assumes "writeFails w (cacheFilePath P v l)"
  shows "cacheTranscript P now v l tx w =
           (Inr (), log LogCacheWriteFailed (snd (initializeCache w)))"
  using assms by (simp add: cache_defs Let_def)

text \<open>
  C4, as stated, fails: it speaks of every pair, and for the language code \<^verbatim>\<open>en/x\<close> the
  cache file lies below a subdirectory that nothing creates. On a file system in order the
  write is refused, the store swallows the failure, and the lookup that follows, well within
  the window, returns nothing. The same file system serves the pair with the language code
  \<^verbatim>\<open>en\<close>.
\<close>

theorem cache_round_trip_refused_write:
  "cacheFilePath demoPlatform ''dQw4w9WgXcQ'' ''en/x'' =
     ''/tmp/youtube-transcript-cache/dQw4w9WgXcQ_en/x.json'' \<and>
   writeFails flatDirWorld ''/tmp/youtube-transcript-cache/dQw4w9WgXcQ_en/x.json'' \<and>
   \<not> writeFails flatDirWorld ''/tmp/youtube-transcript-cache/dQw4w9WgXcQ_en.json'' \<and>
   fst (cacheTranscript demoPlatform 0 ''dQw4w9WgXcQ'' ''en/x'' ''Hello world'' flatDirWorld) =
     Inr () \<and>
   fst (getCachedTranscript demoPlatform 1 ''dQw4w9WgXcQ'' ''en/x''
         (snd (cacheTranscript demoPlatform 0 ''dQw4w9WgXcQ'' ''en/x'' ''Hello world''
                flatDirWorld))) = Inr None"
  by (simp add: cache_defs demoPlatform_def freshWorld_def flatDirWorld_def cacheFilePath_def)

text \<open>
  C4, amended: for every pair whose cache file the file system lets the program create,
  read, write and remove, storing a text and then looking the pair up behaves as follows. A
  lookup at a time \<open>t\<close> with \<open>t - t0 < cacheTTL\<close> (24 hours in milliseconds) returns exactly
  the text. A lookup at or after expiry returns nothing and removes the file, so that every
  later lookup returns nothing, while a new store followed by a lookup within its window
  returns the new text. A second store followed by a lookup returns the second text.
\<close>

theorem cache_round_trip_and_expiry:
  assumes "cacheUsable P videoId lang w"
  shows "(t - t0 < cacheTTL \<longrightarrow>
            fst (getCachedTranscript P t videoId lang
                  (snd (cacheTranscript P t0 videoId lang tx w))) = Inr (Some tx)) \<and>
         (cacheTTL \<le> t - t0 \<longrightarrow>
            fst (getCachedTranscript P t videoId lang
                  (snd (cacheTranscript P t0 videoId lang tx w))) = Inr None \<and>
            files (snd (getCachedTranscript P t videoId lang
                    (snd (cacheTranscript P t0 videoId lang tx w))))
              (cacheFilePath P videoId lang) = None \<and>
            (\<forall>t'. fst (getCachedTranscript P t' videoId lang
                    (snd (getCachedTranscript P t videoId lang
                      (snd (cacheTranscript P t0 videoId lang tx w))))) = Inr None) \<and>
            (\<forall>t1 t2 tx2. t2 - t1 < cacheTTL \<longrightarrow>
               fst (getCachedTranscript P t2 videoId lang
                    (snd (cacheTranscript P t1 videoId lang tx2
                      (snd (getCachedTranscript P t videoId lang
                        (snd (cacheTranscript P t0 videoId lang tx w))))))) =
                 Inr (Some tx2))) \<and>
         (\<forall>t1 tx2. t - t1 < cacheTTL \<longrightarrow>
            fst (getCachedTranscript P t videoId lang
                  (snd (cacheTranscript P t1 videoId lang tx2
                    (snd (cacheTranscript P t0 videoId lang tx w))))) = Inr (Some tx2))"
proof -
  let ?w1 = "snd (cacheTranscript P t0 videoId lang tx w)"
  let ?w2 = "snd (getCachedTranscript P t videoId lang ?w1)"
  have u1: "cacheUsable P videoId lang ?w1"
    by (rule store_usable[OF assms])
  have u2: "cacheUsable P videoId lang ?w2"
    by (rule lookup_usable[OF u1])
  have f1: "files ?w1 (cacheFilePath P videoId lang) =
              Some (CacheJson \<lparr>transcript = tx, timestamp = t0\<rparr>)"
    by (rule store_file[OF assms])
  have fresh: "t - t0 < cacheTTL \<longrightarrow> fst (getCachedTranscript P t videoId lang ?w1) = Inr (Some tx)"
    using store_then_lookup[OF assms] by blast
  have expired: "cacheTTL \<le> t - t0 \<longrightarrow>
      fst (getCachedTranscript P t videoId lang ?w1) = Inr None \<and>
      files ?w2 (cacheFilePath P videoId lang) = None"
    using lookup_expired[OF u1 f1, of t] by simp
  have later: "cacheTTL \<le> t - t0 \<longrightarrow>
      (\<forall>t'. fst (getCachedTranscript P t' videoId lang ?w2) = Inr None)"
    using expired lookup_missing[of ?w2 P videoId lang] by blast
  have again: "\<forall>t1 t2 tx2. t2 - t1 < cacheTTL \<longrightarrow>
      fst (getCachedTranscript P t2 videoId lang
            (snd (cacheTranscript P t1 videoId lang tx2 ?w2))) = Inr (Some tx2)"
    using store_then_lookup[OF u2] by blast
  have overwrite: "\<forall>t1 tx2. t - t1 < cacheTTL \<longrightarrow>
      fst (getCachedTranscript P t videoId lang
            (snd (cacheTranscript P t1 videoId lang tx2 ?w1))) = Inr (Some tx2)"
    using store_then_lookup[OF u1] by blast
  show ?thesis
    using fresh expired later again overwrite by blast
qed

theorem cache_round_trip_and_expiry_witness:
  "cacheUsable demoPlatform ''dQw4w9WgXcQ'' ''en'' freshWorld \<and>
   fst (getCachedTranscript demoPlatform 86399999 ''dQw4w9WgXcQ'' ''en''
         (snd (cacheTranscript demoPlatform 0 ''dQw4w9WgXcQ'' ''en'' ''Hello world''
                freshWorld))) = Inr (Some ''Hello world'') \<and>
   fst (getCachedTranscript demoPlatform 86400000 ''dQw4w9WgXcQ'' ''en''
         (snd (cacheTranscript demoPlatform 0 ''dQw4w9WgXcQ'' ''en'' ''Hello world''
                freshWorld))) = Inr None"
proof -
  have u: "cacheUsable demoPlatform ''dQw4w9WgXcQ'' ''en'' freshWorld"
    by (simp add: cacheUsable_def freshWorld_def)
  show ?thesis
    using u
      cache_round_trip_and_expiry[OF u, of 86399999 0 "''Hello world''"]
      cache_round_trip_and_expiry[OF u, of 86400000 0 "''Hello world''"]
    by (simp add: cacheTTL_def)
qed

section \<open>Properties of the strategies and of the retry loop\<close>

lemma catch_internal:
  "\<exists>m. fetchTranscriptWithCaptionsScraper_catch P e = McpError InternalError m"
  by (simp add: fetchTranscriptWithCaptionsScraper_catch_def Let_def)

lemma primary_error_internal:
  assumes "fst (fetchTranscriptWithCaptionsScraper P outcome v l w) = Inl e"
  shows "\<exists>m. e = McpError InternalError m"
  using assms catch_internal[of P]
  by (cases outcome) (auto simp: fetchTranscriptWithCaptionsScraper_def Let_def)

lemma primaryAttempt_fail:
  assumes "subtitles R attempt = Inl err"
  shows "fst (primaryAttempt P R v l attempt w) =
           Inl (fetchTranscriptWithCaptionsScraper_catch P err)"
    and "effects (snd (primaryAttempt P R v l attempt w)) =
           effects w @ backoff attempt @ [GetSubtitles v l (proxyUrl P)]"
  using assms
  by (simp_all add: primaryAttempt_def fetchTranscriptWithCaptionsScraper_def Let_def
      perform_def log_def backoff_def)

lemma primaryAttempt_ok:
  assumes "subtitles R attempt = Inr ls"
  shows "fst (primaryAttempt P R v l attempt w) = Inr (formatTranscript ls)"
    and "effects (snd (primaryAttempt P R v l attempt w)) =
           effects w @ backoff attempt @ [GetSubtitles v l (proxyUrl P)]"
  using assms
  by (simp_all add: primaryAttempt_def fetchTranscriptWithCaptionsScraper_def Let_def
      cacheTranscript_case cacheTranscript_effects perform_def log_def backoff_def)

lemma primaryLoop_fail:
  assumes "attempt < maxRetries" "subtitles R attempt = Inl err"
  shows "primaryLoop P R v l attempt lastE w =
           primaryLoop P R v l (Suc attempt)
             (Some (fetchTranscriptWithCaptionsScraper_catch P err))
             (log (LogAttemptFailed (Suc attempt)) (snd (primaryAttempt P R v l attempt w)))"
proof -
  obtain m where m: "fetchTranscriptWithCaptionsScraper_catch P err = McpError InternalError m"
    using catch_internal by blast
  obtain r w1 where pa: "primaryAttempt P R v l attempt w = (r, w1)"
    by fastforce
  have r: "r = Inl (McpError InternalError m)"
    using primaryAttempt_fail(1)[OF assms(2), of P v l w] m pa by simp
  show ?thesis
    using assms(1) by (subst primaryLoop.simps) (simp add: Let_def pa r m)
qed

lemma primaryLoop_ok:
  assumes "attempt < maxRetries" "subtitles R attempt = Inr ls"
  shows "primaryLoop P R v l attempt lastE w =
           (Returned (formatTranscript ls), snd (primaryAttempt P R v l attempt w))"
proof -
  obtain r w1 where pa: "primaryAttempt P R v l attempt w = (r, w1)"
    by fastforce
  have r: "r = Inr (formatTranscript ls)"
    using primaryAttempt_ok(1)[OF assms(2), of P v l w] pa by simp
  show ?thesis
    using assms(1) by (subst primaryLoop.simps) (simp add: pa r)
qed

lemma primaryLoop_end:
  "\<not> attempt < maxRetries \<Longrightarrow> primaryLoop P R v l attempt lastE w = (Exhausted lastE, w)"
  by (subst primaryLoop.simps) simp

lemma primaryLoop_never_rethrows:
  "fst (primaryLoop P R v l attempt lastE w) \<noteq> Rethrown e"
proof (induction P R v l attempt lastE w rule: primaryLoop.induct)
  case (1 P R videoId lang attempt lastError w)
  show ?case
  proof (cases "attempt < maxRetries")
    case False
    then show ?thesis by (simp add: primaryLoop_end)
  next
    case True
    show ?thesis
    proof (cases "subtitles R attempt")
      case (Inl err)
      obtain r w1 where pa: "primaryAttempt P R videoId lang attempt w = (r, w1)"
        by fastforce
      have r: "r = Inl (fetchTranscriptWithCaptionsScraper_catch P err)"
        using primaryAttempt_fail(1)[OF Inl, of P videoId lang w] pa by simp
      obtain m where m: "fetchTranscriptWithCaptionsScraper_catch P err = McpError InternalError m"
        using catch_internal by blast
      have "fst (primaryLoop P R videoId lang (attempt + 1)
                   (Some (fetchTranscriptWithCaptionsScraper_catch P err))
                   (log (LogAttemptFailed (attempt + 1)) w1)) \<noteq> Rethrown e"
        using "1.IH"[OF True pa[symmetric] r refl] m by simp
      then show ?thesis
        using primaryLoop_fail[OF True Inl, of P videoId lang lastError w] pa by simp
    next
      case (Inr ls)
      then show ?thesis by (simp add: primaryLoop_ok[OF True Inr])
    qed
  qed
qed

lemma primaryLoop_exhausted:
  "fst (primaryLoop P R v l attempt lastE w) = Exhausted x \<Longrightarrow>
     attempt \<le> k \<Longrightarrow> k < maxRetries \<Longrightarrow> isl (subtitles R k)"
proof (induction P R v l attempt lastE w rule: primaryLoop.induct)
  case (1 P R videoId lang attempt lastError w)
  have lt: "attempt < maxRetries" using "1.prems" by simp
  show ?case
  proof (cases "subtitles R attempt")
    case (Inl err)
    obtain r w1 where pa: "primaryAttempt P R videoId lang attempt w = (r, w1)"
      by fastforce
    have r: "r = Inl (fetchTranscriptWithCaptionsScraper_catch P err)"
      using primaryAttempt_fail(1)[OF Inl, of P videoId lang w] pa by simp
    obtain m where m: "fetchTranscriptWithCaptionsScraper_catch P err = McpError InternalError m"
      using catch_internal by blast
    show ?thesis
    proof (cases "k = attempt")
      case True
      then show ?thesis using Inl by simp
    next
      case False
      then have k: "attempt + 1 \<le> k" using "1.prems"(2) by simp
      have "fst (primaryLoop P R videoId lang (attempt + 1)
                   (Some (fetchTranscriptWithCaptionsScraper_catch P err))
                   (log (LogAttemptFailed (attempt + 1)) w1)) = Exhausted x"
        using "1.prems"(1) primaryLoop_fail[OF lt Inl, of P videoId lang lastError w] pa
        by simp
      then show ?thesis
        using "1.IH"[OF lt pa[symmetric] r refl _ _ k "1.prems"(3)] m by simp
    qed
  next
    case (Inr ls)
    then show ?thesis using "1.prems"(1) by (simp add: primaryLoop_ok[OF lt Inr])
  qed
qed

lemma fallback_effects:
  "effects (snd (fetchTranscriptWithFallbackMethod P out v l w)) =
     effects w @ [Fetch (timedtextUrl v l) (proxyUrl P)]"
  by (auto simp: fetchTranscriptWithFallbackMethod_def timedtextUrl_def
      fetchTranscriptWithFallbackMethod_try_def Let_def perform_def log_def
      split: fetch_outcome.splits sum.splits)

lemma fallback_result:
  "fst (fetchTranscriptWithFallbackMethod P out v l w) =
     (case out of
        FetchRejected error \<Rightarrow>
          Inl (McpError InternalError
                (''Fallback transcript method failed: '' @ interpolate (message P error)))
      | Response ok status body \<Rightarrow>
          if \<not> ok
          then Inl (McpError InternalError
                 (''Fallback transcript method failed: HTTP error! status: '' @ showNat status))
          else (case body of
                  Inl error \<Rightarrow>
                    Inl (McpError InternalError
                      (''Fallback transcript method failed: '' @ interpolate (message P error)))
                | Inr xml \<Rightarrow> Inr (extractTextContent xml)))"
  by (auto simp: fetchTranscriptWithFallbackMethod_def
      fetchTranscriptWithFallbackMethod_try_def Let_def
      split: fetch_outcome.splits sum.splits)

lemma fallbackAttempt_effects:
  "effects (snd (fallbackAttempt P R v l w)) =
     effects w @ [Fetch (timedtextUrl v l) (proxyUrl P)]"
proof -
  obtain r w2 where f:
    "fetchTranscriptWithFallbackMethod P (timedtext R) v l (log LogTryingFallback w) = (r, w2)"
    by fastforce
  have w2: "effects w2 = effects w @ [Fetch (timedtextUrl v l) (proxyUrl P)]"
    using fallback_effects[of P "timedtext R" v l "log LogTryingFallback w"] f
    by (simp add: log_effects)
  show ?thesis
    by (cases r)
       (simp_all add: fallbackAttempt_def Let_def f w2 cacheTranscript_case
          cacheTranscript_effects)
qed

lemma fallbackAttempt_result:
  "fst (fallbackAttempt P R v l w) =
     fst (fetchTranscriptWithFallbackMethod P (timedtext R) v l (log LogTryingFallback w))"
proof -
  obtain r w2 where f:
    "fetchTranscriptWithFallbackMethod P (timedtext R) v l (log LogTryingFallback w) = (r, w2)"
    by fastforce
  show ?thesis
    by (cases r) (simp_all add: fallbackAttempt_def Let_def f cacheTranscript_case)
qed

lemma fallbackAttempt_fails:
  assumes "fallbackFails (timedtext R)"
  shows "\<exists>e. fst (fallbackAttempt P R v l w) = Inl e"
  using assms
  by (auto simp: fallbackAttempt_result fallback_result fallbackFails_def
      split: fetch_outcome.splits sum.splits)

lemma fallbackAttempt_error:
  assumes "fst (fallbackAttempt P R v l w) = Inl e"
  shows "fallbackFails (timedtext R)"
  using assms
  by (auto simp: fallbackAttempt_result fallback_result fallbackFails_def
      split: fetch_outcome.splits sum.splits if_splits)

section \<open>Properties of the orchestrator\<close>

lemma getTranscript_miss:
  assumes "fst (getCachedTranscript P (nowAtLookup R) v l w) = Inr c" "\<not> truthy c"
  shows "getTranscript P R v l w =
           getTranscript_fetch P R v l (snd (getCachedTranscript P (nowAtLookup R) v l w))"
  using assms
  by (cases "getCachedTranscript P (nowAtLookup R) v l w")
     (auto simp: getTranscript_def split: option.splits)

lemma getTranscript_hit:
  assumes "fst (getCachedTranscript P (nowAtLookup R) v l w) = Inr (Some t)" "t \<noteq> []"
  shows "getTranscript P R v l w = (Inr t, snd (getCachedTranscript P (nowAtLookup R) v l w))"
  using assms
  by (cases "getCachedTranscript P (nowAtLookup R) v l w")
     (auto simp: getTranscript_def split: option.splits)

text \<open>
  A cache hit with a non-empty text is returned as it is, with no delay and no network call.
\<close>

lemma getTranscript_nonempty_hit:
  assumes "fst (getCachedTranscript P (nowAtLookup R) v l w) = Inr (Some t)" "t \<noteq> []"
  shows "fst (getTranscript P R v l w) = Inr t \<and>
         effects (snd (getTranscript P R v l w)) = effects w"
  by (simp add: getTranscript_hit[OF assms] getCachedTranscript_effects)

lemma getTranscript_fetch_first_ok:
  assumes "subtitles R 0 = Inr ls"
  shows "fst (getTranscript_fetch P R v l w) = Inr (formatTranscript ls)"
  by (simp add: getTranscript_fetch_def primaryLoop_ok[OF _ assms] maxRetries_def)

lemma getTranscript_fetch_retry:
  assumes "subtitles R 0 = Inl e0" "subtitles R 1 = Inl e1" "subtitles R 2 = Inr ls"
  shows "fst (getTranscript_fetch P R v l w) = Inr (formatTranscript ls)"
    and "effects (snd (getTranscript_fetch P R v l w)) = effects w @
       [GetSubtitles v l (proxyUrl P), Sleep 1000, GetSubtitles v l (proxyUrl P), Sleep 2000,
        GetSubtitles v l (proxyUrl P)]"
proof -
  have a1: "subtitles R (Suc 0) = Inl e1" and a2: "subtitles R (Suc (Suc 0)) = Inr ls"
    using assms by (simp_all add: numeral_2_eq_2)
  let ?w1 = "log (LogAttemptFailed (Suc 0)) (snd (primaryAttempt P R v l 0 w))"
  let ?w2 = "log (LogAttemptFailed (Suc (Suc 0))) (snd (primaryAttempt P R v l (Suc 0) ?w1))"
  have loop: "primaryLoop P R v l 0 None w =
     (Returned (formatTranscript ls), snd (primaryAttempt P R v l (Suc (Suc 0)) ?w2))"
    by (simp add: primaryLoop_fail[OF _ assms(1)] primaryLoop_fail[OF _ a1]
        primaryLoop_ok[OF _ a2] maxRetries_def)
  show "fst (getTranscript_fetch P R v l w) = Inr (formatTranscript ls)"
    by (simp add: getTranscript_fetch_def loop)
  show "effects (snd (getTranscript_fetch P R v l w)) = effects w @
       [GetSubtitles v l (proxyUrl P), Sleep 1000, GetSubtitles v l (proxyUrl P), Sleep 2000,
        GetSubtitles v l (proxyUrl P)]"
    by (simp add: getTranscript_fetch_def loop primaryAttempt_ok(2)[OF a2]
        primaryAttempt_fail(2)[OF a1] primaryAttempt_fail(2)[OF assms(1)] log_effects
        backoff_def retryBaseDelay_def)
qed

lemma primaryLoop_all_fail:
  assumes "subtitles R 0 = Inl e0" "subtitles R 1 = Inl e1" "subtitles R 2 = Inl e2"
  shows "fst (primaryLoop P R v l 0 None w) =
           Exhausted (Some (fetchTranscriptWithCaptionsScraper_catch P e2))"
    and "effects (snd (primaryLoop P R v l 0 None w)) = effects w @
       [GetSubtitles v l (proxyUrl P), Sleep 1000, GetSubtitles v l (proxyUrl P), Sleep 2000,
        GetSubtitles v l (proxyUrl P)]"
proof -
  have a1: "subtitles R (Suc 0) = Inl e1" and a2: "subtitles R (Suc (Suc 0)) = Inl e2"
    using assms by (simp_all add: numeral_2_eq_2)
  let ?w1 = "log (LogAttemptFailed (Suc 0)) (snd (primaryAttempt P R v l 0 w))"
  let ?w2 = "log (LogAttemptFailed (Suc (Suc 0))) (snd (primaryAttempt P R v l (Suc 0) ?w1))"
  let ?w3 = "log (LogAttemptFailed (Suc (Suc (Suc 0))))
               (snd (primaryAttempt P R v l (Suc (Suc 0)) ?w2))"
  have loop: "primaryLoop P R v l 0 None w =
     (Exhausted (Some (fetchTranscriptWithCaptionsScraper_catch P e2)), ?w3)"
    by (simp add: primaryLoop_fail[OF _ assms(1)] primaryLoop_fail[OF _ a1]
        primaryLoop_fail[OF _ a2] primaryLoop_end maxRetries_def)
  show "fst (primaryLoop P R v l 0 None w) =
           Exhausted (Some (fetchTranscriptWithCaptionsScraper_catch P e2))"
    by (simp add: loop)
  show "effects (snd (primaryLoop P R v l 0 None w)) = effects w @
       [GetSubtitles v l (proxyUrl P), Sleep 1000, GetSubtitles v l (proxyUrl P), Sleep 2000,
        GetSubtitles v l (proxyUrl P)]"
    by (simp add: loop primaryAttempt_fail(2)[OF a2]
        primaryAttempt_fail(2)[OF a1] primaryAttempt_fail(2)[OF assms(1)] log_effects
        backoff_def retryBaseDelay_def)
qed

lemma getTranscript_fetch_all_fail:
  assumes "subtitles R 0 = Inl e0" "subtitles R 1 = Inl e1" "subtitles R 2 = Inl e2"
  shows "fst (getTranscript_fetch P R v l w) =
           (case fst (fallbackAttempt P R v l (snd (primaryLoop P R v l 0 None w))) of
              Inr result \<Rightarrow> Inr result
            | Inl fallbackError \<Rightarrow>
                Inl (McpError InternalError
                  (''Failed to retrieve transcript after multiple attempts: '' @
                   orElse (message P (fetchTranscriptWithCaptionsScraper_catch P e2))
                     ''Unknown error'')))"
    and "effects (snd (getTranscript_fetch P R v l w)) = effects w @
       [GetSubtitles v l (proxyUrl P), Sleep 1000, GetSubtitles v l (proxyUrl P), Sleep 2000,
        GetSubtitles v l (proxyUrl P), Fetch (timedtextUrl v l) (proxyUrl P)]"
proof -
  obtain w3 where loop: "primaryLoop P R v l 0 None w =
      (Exhausted (Some (fetchTranscriptWithCaptionsScraper_catch P e2)), w3)"
    using primaryLoop_all_fail(1)[OF assms, of P v l w]
    by (cases "primaryLoop P R v l 0 None w") simp
  have w3: "effects w3 = effects w @
       [GetSubtitles v l (proxyUrl P), Sleep 1000, GetSubtitles v l (proxyUrl P), Sleep 2000,
        GetSubtitles v l (proxyUrl P)]"
    using primaryLoop_all_fail(2)[OF assms, of P v l w] loop by simp
  obtain r w4 where f: "fallbackAttempt P R v l w3 = (r, w4)"
    by fastforce
  have w4: "effects w4 = effects w3 @ [Fetch (timedtextUrl v l) (proxyUrl P)]"
    using fallbackAttempt_effects[of P R v l w3] f by simp
  show "fst (getTranscript_fetch P R v l w) =
           (case fst (fallbackAttempt P R v l (snd (primaryLoop P R v l 0 None w))) of
              Inr result \<Rightarrow> Inr result
            | Inl fallbackError \<Rightarrow>
                Inl (McpError InternalError
                  (''Failed to retrieve transcript after multiple attempts: '' @
                   orElse (message P (fetchTranscriptWithCaptionsScraper_catch P e2))
                     ''Unknown error'')))"
    by (cases r) (simp_all add: getTranscript_fetch_def loop f)
  show "effects (snd (getTranscript_fetch P R v l w)) = effects w @
       [GetSubtitles v l (proxyUrl P), Sleep 1000, GetSubtitles v l (proxyUrl P), Sleep 2000,
        GetSubtitles v l (proxyUrl P), Fetch (timedtextUrl v l) (proxyUrl P)]"
    by (cases r) (simp_all add: getTranscript_fetch_def loop f w4 w3 log_effects)
qed

lemma getTranscript_fetch_error:
  assumes "fst (getTranscript_fetch P R v l w) = Inl e"
  shows "fallbackFails (timedtext R) \<and> (\<forall>k<maxRetries. isl (subtitles R k)) \<and>
         (\<exists>m. e = McpError InternalError
                 (''Failed to retrieve transcript after multiple attempts: '' @ m))"
proof -
  obtain x w1 where loop: "primaryLoop P R v l 0 None w = (x, w1)"
    by fastforce
  show ?thesis
  proof (cases x)
    case (Returned t)
    then show ?thesis using assms by (simp add: getTranscript_fetch_def loop)
  next
    case (Rethrown e')
    then show ?thesis
      using primaryLoop_never_rethrows[of P R v l 0 None w e'] loop by simp
  next
    case (Exhausted lastE)
    obtain r w2 where f: "fallbackAttempt P R v l w1 = (r, w2)"
      by fastforce
    have all: "\<forall>k<maxRetries. isl (subtitles R k)"
      using primaryLoop_exhausted[of P R v l 0 None w lastE] loop Exhausted by simp
    show ?thesis
    proof (cases r)
      case (Inl fe)
      have "fallbackFails (timedtext R)"
        using fallbackAttempt_error[of P R v l w1 fe] f Inl by simp
      then show ?thesis
        using assms all by (auto simp: getTranscript_fetch_def loop Exhausted f Inl)
    next
      case (Inr t)
      then show ?thesis
        using assms by (simp add: getTranscript_fetch_def loop Exhausted f)
    qed
  qed
qed

lemma getTranscript_error:
  assumes "fst (getTranscript P R v l w) = Inl e"
  shows "fallbackFails (timedtext R) \<and> (\<forall>k<maxRetries. isl (subtitles R k)) \<and>
         (\<exists>m. e = McpError InternalError
                 (''Failed to retrieve transcript after multiple attempts: '' @ m))"
proof -
  obtain c where c: "fst (getCachedTranscript P (nowAtLookup R) v l w) = Inr c"
    using getCachedTranscript_ok by blast
  show ?thesis
  proof (cases "truthy c")
    case True
    then obtain t where "c = Some t" "t \<noteq> []" by (cases c) auto
    then show ?thesis using getTranscript_hit[of P R v l w t] c assms by simp
  next
    case False
    then show ?thesis
      using getTranscript_miss[OF c False] assms getTranscript_fetch_error by simp
  qed
qed

lemma getTranscript_fetch_first_effects:
  assumes "subtitles R 0 = Inr ls"
  shows "effects (snd (getTranscript_fetch P R v l w)) =
           effects w @ [GetSubtitles v l (proxyUrl P)]"
  by (simp add: getTranscript_fetch_def primaryLoop_ok[OF _ assms] maxRetries_def
      primaryAttempt_ok(2)[OF assms] backoff_def)

lemma primaryAttempt_write_faults:
  "writeFails (snd (primaryAttempt P R v l k w)) = writeFails w"
  by (cases "subtitles R k")
     (simp_all add: primaryAttempt_def fetchTranscriptWithCaptionsScraper_def Let_def
        cacheTranscript_case cacheTranscript_write_faults perform_def log_def)

lemma primaryAttempt_store_refused:
  assumes "subtitles R k = Inr ls" "writeFails w (cacheFilePath P v l)"
  shows "LogCacheWriteFailed \<in> set (console (snd (primaryAttempt P R v l k w)))"
proof -
  define w1 where "w1 = (if k > 0
                then (let delay = retryBaseDelay * 2 ^ (k - 1)
                      in perform (Sleep delay) (log (LogRetry (k + 1) maxRetries delay) w))
                else w)"
  let ?w2 = "perform (GetSubtitles v l (proxyUrl P)) w1"
  have "writeFails ?w2 (cacheFilePath P v l)"
    using assms(2) by (simp add: w1_def perform_def log_def Let_def)
  then have "cacheTranscript P (nowAtStore R) v l (formatTranscript ls) ?w2 =
               (Inr (), log LogCacheWriteFailed (snd (initializeCache ?w2)))"
    by (rule write_failure)
  then show ?thesis
    using assms(1)
    by (simp add: primaryAttempt_def fetchTranscriptWithCaptionsScraper_def Let_def log_def
        w1_def[symmetric])
qed

lemma primaryLoop_succeeds_at:
  assumes "k < maxRetries" "subtitles R k = Inr ls"
  shows "a \<le> k \<Longrightarrow> (\<forall>j. a \<le> j \<and> j < k \<longrightarrow> isl (subtitles R j)) \<Longrightarrow>
         fst (primaryLoop P R v l a lastE w) = Returned (formatTranscript ls) \<and>
         (writeFails w (cacheFilePath P v l) \<longrightarrow>
            LogCacheWriteFailed \<in> set (console (snd (primaryLoop P R v l a lastE w))))"
proof (induction "k - a" arbitrary: a lastE w)
  case 0
  then have a: "a = k" by simp
  show ?case
    using primaryAttempt_ok(1)[OF assms(2)] primaryAttempt_store_refused[OF assms(2)]
    by (simp add: a primaryLoop_ok[OF assms])
next
  case (Suc n)
  then have lt: "a < k" by simp
  then have "isl (subtitles R a)" using Suc.prems(2) by simp
  then obtain err where err: "subtitles R a = Inl err" by (cases "subtitles R a") auto
  have am: "a < maxRetries" using lt assms(1) by simp
  let ?w1 = "log (LogAttemptFailed (Suc a)) (snd (primaryAttempt P R v l a w))"
  have wf: "writeFails ?w1 = writeFails w"
    by (simp add: log_def primaryAttempt_write_faults)
  have ih: "fst (primaryLoop P R v l (Suc a) lastE' ?w1) = Returned (formatTranscript ls) \<and>
         (writeFails ?w1 (cacheFilePath P v l) \<longrightarrow>
            LogCacheWriteFailed \<in> set (console (snd (primaryLoop P R v l (Suc a) lastE' ?w1))))"
    for lastE'
    using Suc.hyps(1)[of "Suc a" lastE' ?w1] Suc.hyps(2) Suc.prems lt by simp
  show ?case
    using ih by (simp add: primaryLoop_fail[OF am err] wf)
qed

lemma primaryLoop_write_faults:
  "writeFails (snd (primaryLoop P R v l a lastE w)) = writeFails w"
proof (induction P R v l a lastE w rule: primaryLoop.induct)
  case (1 P R videoId lang attempt lastError w)
  show ?case
  proof (cases "attempt < maxRetries")
    case False
    then show ?thesis by (simp add: primaryLoop_end)
  next
    case True
    show ?thesis
    proof (cases "subtitles R attempt")
      case (Inl err)
      obtain r w1 where pa: "primaryAttempt P R videoId lang attempt w = (r, w1)"
        by fastforce
      have r: "r = Inl (fetchTranscriptWithCaptionsScraper_catch P err)"
        using primaryAttempt_fail(1)[OF Inl, of P videoId lang w] pa by simp
      obtain m where m: "fetchTranscriptWithCaptionsScraper_catch P err = McpError InternalError m"
        using catch_internal by blast
      have w1: "writeFails w1 = writeFails w"
        using primaryAttempt_write_faults[of P R videoId lang attempt w] pa by simp
      have "writeFails (snd (primaryLoop P R videoId lang (attempt + 1)
                   (Some (fetchTranscriptWithCaptionsScraper_catch P err))
                   (log (LogAttemptFailed (attempt + 1)) w1))) =
            writeFails (log (LogAttemptFailed (attempt + 1)) w1)"
        using "1.IH"[OF True pa[symmetric] r refl] m by simp
      then show ?thesis
        using primaryLoop_fail[OF True Inl, of P videoId lang lastError w] pa w1
        by (simp add: log_def)
    next
      case (Inr ls)
      then show ?thesis
        by (simp add: primaryLoop_ok[OF True Inr] primaryAttempt_write_faults)
    qed
  qed
qed

lemma fallbackAttempt_ok:
  assumes "timedtext R = Response True status (Inr xml)"
  shows "fst (fallbackAttempt P R v l w) = Inr (extractTextContent xml)"
    and "writeFails w (cacheFilePath P v l) \<Longrightarrow>
           LogCacheWriteFailed \<in> set (console (snd (fallbackAttempt P R v l w)))"
proof -
  define w2 where "w2 = snd (fetchTranscriptWithFallbackMethod P (timedtext R) v l
                              (log LogTryingFallback w))"
  have f: "fetchTranscriptWithFallbackMethod P (timedtext R) v l (log LogTryingFallback w) =
             (Inr (extractTextContent xml), w2)"
    by (simp add: w2_def assms fetchTranscriptWithFallbackMethod_def
        fetchTranscriptWithFallbackMethod_try_def Let_def)
  have wf: "writeFails w2 = writeFails w"
    by (simp add: w2_def assms fetchTranscriptWithFallbackMethod_def
        fetchTranscriptWithFallbackMethod_try_def Let_def perform_def log_def)
  have fa: "fallbackAttempt P R v l w =
              (Inr (extractTextContent xml),
               snd (cacheTranscript P (nowAtStore R) v l (extractTextContent xml) w2))"
    by (simp add: fallbackAttempt_def Let_def f cacheTranscript_case)
  show "fst (fallbackAttempt P R v l w) = Inr (extractTextContent xml)"
    by (simp add: fa)
  show "LogCacheWriteFailed \<in> set (console (snd (fallbackAttempt P R v l w)))"
    if "writeFails w (cacheFilePath P v l)"
  proof -
    have "writeFails w2 (cacheFilePath P v l)"
      using that by (simp add: wf)
    then have "cacheTranscript P (nowAtStore R) v l (extractTextContent xml) w2 =
               (Inr (), log LogCacheWriteFailed (snd (initializeCache w2)))"
      by (rule write_failure)
    then show ?thesis
      by (simp add: fa log_def)
  qed
qed

lemma getTranscript_fetch_succeeds_at:
  assumes "k < maxRetries" "subtitles R k = Inr ls" "\<forall>j<k. isl (subtitles R j)"
  shows "fst (getTranscript_fetch P R v l w) = Inr (formatTranscript ls) \<and>
         (writeFails w (cacheFilePath P v l) \<longrightarrow>
            LogCacheWriteFailed \<in> set (console (snd (getTranscript_fetch P R v l w))))"
proof -
  obtain x w1 where loop: "primaryLoop P R v l 0 None w = (x, w1)"
    by fastforce
  have "fst (primaryLoop P R v l 0 None w) = Returned (formatTranscript ls) \<and>
         (writeFails w (cacheFilePath P v l) \<longrightarrow>
            LogCacheWriteFailed \<in> set (console (snd (primaryLoop P R v l 0 None w))))"
    using primaryLoop_succeeds_at[OF assms(1,2), of 0 P v l None w] assms(3) by simp
  then show ?thesis
    by (simp add: getTranscript_fetch_def loop)
qed

lemma getTranscript_fetch_fallback_ok:
  assumes "\<forall>j<maxRetries. isl (subtitles R j)" "timedtext R = Response True status (Inr xml)"
  shows "fst (getTranscript_fetch P R v l w) = Inr (extractTextContent xml) \<and>
         (writeFails w (cacheFilePath P v l) \<longrightarrow>
            LogCacheWriteFailed \<in> set (console (snd (getTranscript_fetch P R v l w))))"
proof -
  have "isl (subtitles R 0)" "isl (subtitles R 1)" "isl (subtitles R 2)"
    using assms(1) by (simp_all add: maxRetries_def)
  then obtain e0 e1 e2 where e: "subtitles R 0 = Inl e0" "subtitles R 1 = Inl e1"
    "subtitles R 2 = Inl e2"
    unfolding isl_def by blast
  obtain w3 where loop: "primaryLoop P R v l 0 None w =
      (Exhausted (Some (fetchTranscriptWithCaptionsScraper_catch P e2)), w3)"
    using primaryLoop_all_fail(1)[OF e, of P v l w]
    by (cases "primaryLoop P R v l 0 None w") simp
  have w3: "writeFails w3 = writeFails w"
    using primaryLoop_write_faults[of P R v l 0 None w] loop by simp
  obtain r w4 where f: "fallbackAttempt P R v l w3 = (r, w4)"
    by fastforce
  have r: "r = Inr (extractTextContent xml)"
    using fallbackAttempt_ok(1)[OF assms(2), of P v l w3] f by simp
  have w4: "writeFails w (cacheFilePath P v l) \<longrightarrow> LogCacheWriteFailed \<in> set (console w4)"
    using fallbackAttempt_ok(2)[OF assms(2), of w3 P v l] f w3 by simp
  show ?thesis
    using w4 by (simp add: getTranscript_fetch_def loop f r)
qed

lemmas demo_run_defs = demoPlatform_def freshWorld_def emptyEntryWorld_def demoLines_def
  okRun_def retryRun_def failingRun_def fallbackRun_def cacheFilePath_def

lemma demo_proxy: "proxyUrl demoPlatform = None"
  by (simp add: demoPlatform_def)

lemma demo_message: "mcpMessage demoPlatform InternalError m = ''MCP error -32603: '' @ m"
  by (simp add: demoPlatform_def)

lemma demo_effects: "effects freshWorld = []" "effects emptyEntryWorld = []"
  by (simp_all add: freshWorld_def emptyEntryWorld_def)

lemma demoLines_text: "formatTranscript demoLines = ''Hello world''"
  by (simp add: formatTranscript_def demoLines_def trim_def isWhiteSpace_def)

lemma freshWorld_miss:
  "fst (getCachedTranscript demoPlatform now ''dQw4w9WgXcQ'' ''en'' freshWorld) = Inr None"
  by (simp add: cache_defs demo_run_defs)

section \<open>The claims about the orchestrator\<close>

text \<open>
  C1: when the cache lookup yields no text to return, the first two primary attempts fail
  and the third succeeds, \<^verbatim>\<open>getTranscript\<close> returns the result of the third attempt. What
  it does meanwhile is exactly: a primary call, a delay of 1000 ms, a primary call, a delay
  of 2000 ms, a primary call. There are three primary calls, two delays, and no fallback
  request.
\<close>

theorem getTranscript_retry_then_success:
  assumes "fst (getCachedTranscript P (nowAtLookup R) videoId lang w) = Inr c" "\<not> truthy c"
    and "subtitles R 0 = Inl e0" "subtitles R 1 = Inl e1" "subtitles R 2 = Inr ls"
  shows "fst (getTranscript P R videoId lang w) = Inr (formatTranscript ls) \<and>
         effects (snd (getTranscript P R videoId lang w)) = effects w @
           [GetSubtitles videoId lang (proxyUrl P), Sleep (retryBaseDelay * 2 ^ 0),
            GetSubtitles videoId lang (proxyUrl P), Sleep (retryBaseDelay * 2 ^ 1),
            GetSubtitles videoId lang (proxyUrl P)] \<and>
         retryBaseDelay * 2 ^ 0 = 1000 \<and> retryBaseDelay * 2 ^ 1 = 2000"
  using getTranscript_fetch_retry[OF assms(3,4,5)]
  by (simp add: getTranscript_miss[OF assms(1,2)] getCachedTranscript_effects
      retryBaseDelay_def)

theorem getTranscript_retry_then_success_witness:
  "fst (getCachedTranscript demoPlatform (nowAtLookup retryRun) ''dQw4w9WgXcQ'' ''en''
         freshWorld) = Inr None \<and>
   subtitles retryRun 0 = Inl (Error (Some ''429 too many requests'')) \<and>
   subtitles retryRun 1 = Inl (Error (Some ''429 too many requests'')) \<and>
   subtitles retryRun 2 = Inr demoLines \<and>
   fst (getTranscript demoPlatform retryRun ''dQw4w9WgXcQ'' ''en'' freshWorld) =
     Inr ''Hello world'' \<and>
   effects (snd (getTranscript demoPlatform retryRun ''dQw4w9WgXcQ'' ''en'' freshWorld)) =
     [GetSubtitles ''dQw4w9WgXcQ'' ''en'' None, Sleep 1000,
      GetSubtitles ''dQw4w9WgXcQ'' ''en'' None, Sleep 2000,
      GetSubtitles ''dQw4w9WgXcQ'' ''en'' None]"
proof -
  have h1: "fst (getCachedTranscript demoPlatform (nowAtLookup retryRun) ''dQw4w9WgXcQ''
                  ''en'' freshWorld) = Inr None"
    by (rule freshWorld_miss)
  have h2: "\<not> truthy None" by simp
  have h3: "subtitles retryRun 0 = Inl (Error (Some ''429 too many requests''))"
    and h4: "subtitles retryRun 1 = Inl (Error (Some ''429 too many requests''))"
    and h5: "subtitles retryRun 2 = Inr demoLines"
    by (simp_all add: retryRun_def)
  show ?thesis
    using getTranscript_retry_then_success[OF h1 h2 h3 h4 h5] h1 h3 h4 h5
    by (simp add: demoLines_text demo_proxy demo_effects retryBaseDelay_def)
qed

text \<open>
  C2: when the cache lookup yields no text to return, the three primary attempts fail and
  the fallback request fails too, \<^verbatim>\<open>getTranscript\<close> throws an \<^verbatim>\<open>McpError\<close> of code
  \<^verbatim>\<open>InternalError\<close> whose message is
  \<^verbatim>\<open>Failed to retrieve transcript after multiple attempts: \<close> followed by the message of
  the error that the third primary attempt threw (by \<^verbatim>\<open>Unknown error\<close> if that message
  were empty, which the SDK's message format excludes). The fallback request is made
  exactly once, after the three primary calls.
\<close>

theorem getTranscript_total_failure:
  assumes "fst (getCachedTranscript P (nowAtLookup R) videoId lang w) = Inr c" "\<not> truthy c"
    and "subtitles R 0 = Inl e0" "subtitles R 1 = Inl e1" "subtitles R 2 = Inl e2"
    and "fallbackFails (timedtext R)"
  shows "fst (getTranscript P R videoId lang w) =
           Inl (McpError InternalError
             (''Failed to retrieve transcript after multiple attempts: '' @
              orElse (message P (fetchTranscriptWithCaptionsScraper_catch P e2))
                ''Unknown error'')) \<and>
         (\<exists>m. fetchTranscriptWithCaptionsScraper_catch P e2 = McpError InternalError m \<and>
              (mcpMessage P InternalError m \<noteq> [] \<longrightarrow>
                 fst (getTranscript P R videoId lang w) =
                   Inl (McpError InternalError
                     (''Failed to retrieve transcript after multiple attempts: '' @
                      mcpMessage P InternalError m)))) \<and>
         effects (snd (getTranscript P R videoId lang w)) = effects w @
           [GetSubtitles videoId lang (proxyUrl P), Sleep 1000,
            GetSubtitles videoId lang (proxyUrl P), Sleep 2000,
            GetSubtitles videoId lang (proxyUrl P),
            Fetch (timedtextUrl videoId lang) (proxyUrl P)]"
proof -
  let ?w1 = "snd (getCachedTranscript P (nowAtLookup R) videoId lang w)"
  obtain fe where fe:
    "fst (fallbackAttempt P R videoId lang (snd (primaryLoop P R videoId lang 0 None ?w1))) =
       Inl fe"
    using fallbackAttempt_fails[OF assms(6)] by blast
  have res: "fst (getTranscript P R videoId lang w) =
           Inl (McpError InternalError
             (''Failed to retrieve transcript after multiple attempts: '' @
              orElse (message P (fetchTranscriptWithCaptionsScraper_catch P e2))
                ''Unknown error''))"
    using getTranscript_fetch_all_fail(1)[OF assms(3,4,5), of P videoId lang ?w1] fe
    by (simp add: getTranscript_miss[OF assms(1,2)])
  obtain m where m: "fetchTranscriptWithCaptionsScraper_catch P e2 = McpError InternalError m"
    using catch_internal by blast
  have eff: "effects (snd (getTranscript P R videoId lang w)) = effects w @
           [GetSubtitles videoId lang (proxyUrl P), Sleep 1000,
            GetSubtitles videoId lang (proxyUrl P), Sleep 2000,
            GetSubtitles videoId lang (proxyUrl P),
            Fetch (timedtextUrl videoId lang) (proxyUrl P)]"
    using getTranscript_fetch_all_fail(2)[OF assms(3,4,5), of P videoId lang ?w1]
    by (simp add: getTranscript_miss[OF assms(1,2)] getCachedTranscript_effects)
  show ?thesis
    using res eff m by (intro conjI exI[of _ m]) simp_all
qed

theorem getTranscript_total_failure_witness:
  "fst (getCachedTranscript demoPlatform (nowAtLookup failingRun) ''dQw4w9WgXcQ'' ''en''
         freshWorld) = Inr None \<and>
   subtitles failingRun 2 = Inl (Error (Some ''socket hang up'')) \<and>
   fallbackFails (timedtext failingRun) \<and>
   fst (getTranscript demoPlatform failingRun ''dQw4w9WgXcQ'' ''en'' freshWorld) =
     Inl (McpError InternalError
       (''Failed to retrieve transcript after multiple attempts: '' @
        ''MCP error -32603: Primary transcript method failed: socket hang up'')) \<and>
   effects (snd (getTranscript demoPlatform failingRun ''dQw4w9WgXcQ'' ''en'' freshWorld)) =
     [GetSubtitles ''dQw4w9WgXcQ'' ''en'' None, Sleep 1000,
      GetSubtitles ''dQw4w9WgXcQ'' ''en'' None, Sleep 2000,
      GetSubtitles ''dQw4w9WgXcQ'' ''en'' None,
      Fetch ''https://www.youtube.com/api/timedtext?v=dQw4w9WgXcQ&lang=en'' None]"
proof -
  have h1: "fst (getCachedTranscript demoPlatform (nowAtLookup failingRun) ''dQw4w9WgXcQ''
                  ''en'' freshWorld) = Inr None"
    by (rule freshWorld_miss)
  have h2: "\<not> truthy None" by simp
  have h3: "subtitles failingRun 0 = Inl (Error (Some ''socket hang up''))"
    and h4: "subtitles failingRun 1 = Inl (Error (Some ''socket hang up''))"
    and h5: "subtitles failingRun 2 = Inl (Error (Some ''socket hang up''))"
    and h6: "fallbackFails (timedtext failingRun)"
    by (simp_all add: failingRun_def fallbackFails_def)
  have c: "fetchTranscriptWithCaptionsScraper_catch demoPlatform (Error (Some ''socket hang up''))
             = McpError InternalError ''Primary transcript method failed: socket hang up''"
    by (simp add: fetchTranscriptWithCaptionsScraper_catch_def)
  show ?thesis
    using getTranscript_total_failure[OF h1 h2 h3 h4 h5 h6] h1 h5 h6
    by (simp add: c demo_proxy demo_message demo_effects timedtextUrl_def)
qed

text \<open>
  C3 does not hold for the empty string. In the world below the cache holds an entry for
  the pair, written at time 0 with the empty transcript, and the lookup at time 1000
  returns it (a hit). \<^verbatim>\<open>getTranscript\<close> tests the returned text for truthiness, the empty
  string is falsy, and so it goes on to the primary strategy and returns what that
  fetches.
\<close>

theorem getTranscript_empty_cached_text_refetched:
  "fst (getCachedTranscript demoPlatform (nowAtLookup okRun) ''dQw4w9WgXcQ'' ''en''
         emptyEntryWorld) = Inr (Some []) \<and>
   fst (getTranscript demoPlatform okRun ''dQw4w9WgXcQ'' ''en'' emptyEntryWorld) =
     Inr ''Hello world'' \<and>
   effects (snd (getTranscript demoPlatform okRun ''dQw4w9WgXcQ'' ''en'' emptyEntryWorld)) =
     [GetSubtitles ''dQw4w9WgXcQ'' ''en'' None]"
proof -
  have h1: "fst (getCachedTranscript demoPlatform (nowAtLookup okRun) ''dQw4w9WgXcQ'' ''en''
                  emptyEntryWorld) = Inr (Some [])"
    by (simp add: cache_defs demo_run_defs cacheTTL_def)
  have h2: "\<not> truthy (Some [])" by simp
  have h3: "subtitles okRun 0 = Inr demoLines"
    by (simp add: okRun_def)
  show ?thesis
    using h1 getTranscript_fetch_first_ok[OF h3] getTranscript_fetch_first_effects[OF h3]
    by (simp add: getTranscript_miss[OF h1 h2] getCachedTranscript_effects demoLines_text
        demo_effects demo_proxy)
qed

text \<open>
  C5: the cache never makes the retrieval fail. Initialisation, lookup and store return
  normally in every world. When the directory is missing and cannot be created, the lookup
  returns nothing and the store changes nothing but the console. When the file is missing,
  cannot be read or cannot be parsed, the lookup returns nothing. When the write is refused,
  the store logs the failure and returns. Whatever the store does, \<^verbatim>\<open>getTranscript\<close>
  returns the transcript it fetched: the text of the first primary attempt that succeeds,
  or, when all primary attempts fail, the text that the fallback strategy extracts; and
  when the write is refused the console holds the store's message. The only error
  \<^verbatim>\<open>getTranscript\<close> throws is the one that follows the failure of all three primary
  attempts and of the fallback request.
\<close>

theorem cache_failures_not_propagated:
  "fst (initializeCache w) = Inr () \<and>
   (\<exists>r. fst (getCachedTranscript P now videoId lang w) = Inr r) \<and>
   fst (cacheTranscript P now videoId lang tx w) = Inr () \<and>
   (\<not> cacheInitialized w \<and> \<not> dirExists w \<and> mkdirFails w \<longrightarrow>
      getCachedTranscript P now videoId lang w = (Inr None, log LogInitFailed w) \<and>
      cacheTranscript P now videoId lang tx w =
        (Inr (), log LogCacheWriteFailed (log LogInitFailed w))) \<and>
   (files w (cacheFilePath P videoId lang) = None \<or>
    files w (cacheFilePath P videoId lang) = Some Corrupt \<or>
    readFails w (cacheFilePath P videoId lang) \<longrightarrow>
      fst (getCachedTranscript P now videoId lang w) = Inr None) \<and>
   (writeFails w (cacheFilePath P videoId lang) \<longrightarrow>
      cacheTranscript P now videoId lang tx w =
        (Inr (), log LogCacheWriteFailed (snd (initializeCache w)))) \<and>
   (\<forall>c k ls. fst (getCachedTranscript P (nowAtLookup R) videoId lang w) = Inr c \<and> \<not> truthy c \<and>
      k < maxRetries \<and> (\<forall>j<k. isl (subtitles R j)) \<and> subtitles R k = Inr ls \<longrightarrow>
        fst (getTranscript P R videoId lang w) = Inr (formatTranscript ls) \<and>
        (writeFails w (cacheFilePath P videoId lang) \<longrightarrow>
           LogCacheWriteFailed \<in> set (console (snd (getTranscript P R videoId lang w))))) \<and>
   (\<forall>c status xml. fst (getCachedTranscript P (nowAtLookup R) videoId lang w) = Inr c \<and>
      \<not> truthy c \<and> (\<forall>j<maxRetries. isl (subtitles R j)) \<and>
      timedtext R = Response True status (Inr xml) \<longrightarrow>
        fst (getTranscript P R videoId lang w) = Inr (extractTextContent xml) \<and>
        (writeFails w (cacheFilePath P videoId lang) \<longrightarrow>
           LogCacheWriteFailed \<in> set (console (snd (getTranscript P R videoId lang w))))) \<and>
   (\<forall>e. fst (getTranscript P R videoId lang w) = Inl e \<longrightarrow>
      fallbackFails (timedtext R) \<and> (\<forall>k<maxRetries. isl (subtitles R k)) \<and>
      (\<exists>m. e = McpError InternalError
              (''Failed to retrieve transcript after multiple attempts: '' @ m)))"
proof -
  let ?w1 = "snd (getCachedTranscript P (nowAtLookup R) videoId lang w)"
  have wf: "writeFails ?w1 = writeFails w"
    by (rule getCachedTranscript_write_faults)
  have primary: "fst (getTranscript P R videoId lang w) = Inr (formatTranscript ls) \<and>
        (writeFails w (cacheFilePath P videoId lang) \<longrightarrow>
           LogCacheWriteFailed \<in> set (console (snd (getTranscript P R videoId lang w))))"
    if c: "fst (getCachedTranscript P (nowAtLookup R) videoId lang w) = Inr c"
      and f: "\<not> truthy c" and k: "k < maxRetries" and j: "\<forall>j<k. isl (subtitles R j)"
      and s: "subtitles R k = Inr ls" for c k ls
    using getTranscript_fetch_succeeds_at[OF k s j, of P videoId lang ?w1]
    by (simp add: getTranscript_miss[OF c f] wf)
  have fallback: "fst (getTranscript P R videoId lang w) = Inr (extractTextContent xml) \<and>
        (writeFails w (cacheFilePath P videoId lang) \<longrightarrow>
           LogCacheWriteFailed \<in> set (console (snd (getTranscript P R videoId lang w))))"
    if c: "fst (getCachedTranscript P (nowAtLookup R) videoId lang w) = Inr c"
      and f: "\<not> truthy c" and j: "\<forall>j<maxRetries. isl (subtitles R j)"
      and t: "timedtext R = Response True status (Inr xml)" for c status xml
    using getTranscript_fetch_fallback_ok[OF j t, of P videoId lang ?w1]
    by (simp add: getTranscript_miss[OF c f] wf)
  show ?thesis
  proof (intro conjI)
    show "fst (initializeCache w) = Inr ()"
      by (rule initializeCache_ok)
    show "\<exists>r. fst (getCachedTranscript P now videoId lang w) = Inr r"
      by (rule getCachedTranscript_ok)
    show "fst (cacheTranscript P now videoId lang tx w) = Inr ()"
      by (rule cacheTranscript_ok)
    show "\<not> cacheInitialized w \<and> \<not> dirExists w \<and> mkdirFails w \<longrightarrow>
      getCachedTranscript P now videoId lang w = (Inr None, log LogInitFailed w) \<and>
      cacheTranscript P now videoId lang tx w =
        (Inr (), log LogCacheWriteFailed (log LogInitFailed w))"
      using init_failure(1)[of w P now videoId lang]
        init_failure(2)[of w P now videoId lang tx]
      by simp
    show "files w (cacheFilePath P videoId lang) = None \<or>
        files w (cacheFilePath P videoId lang) = Some Corrupt \<or>
        readFails w (cacheFilePath P videoId lang) \<longrightarrow>
      fst (getCachedTranscript P now videoId lang w) = Inr None"
      using lookup_unreadable[of w P videoId lang now] by simp
    show "writeFails w (cacheFilePath P videoId lang) \<longrightarrow>
      cacheTranscript P now videoId lang tx w =
        (Inr (), log LogCacheWriteFailed (snd (initializeCache w)))"
      using write_failure[of w P videoId lang now tx] by simp
    show "\<forall>c k ls. fst (getCachedTranscript P (nowAtLookup R) videoId lang w) = Inr c \<and>
        \<not> truthy c \<and> k < maxRetries \<and> (\<forall>j<k. isl (subtitles R j)) \<and>
        subtitles R k = Inr ls \<longrightarrow>
        fst (getTranscript P R videoId lang w) = Inr (formatTranscript ls) \<and>
        (writeFails w (cacheFilePath P videoId lang) \<longrightarrow>
           LogCacheWriteFailed \<in> set (console (snd (getTranscript P R videoId lang w))))"
      using primary by blast
    show "\<forall>c status xml. fst (getCachedTranscript P (nowAtLookup R) videoId lang w) = Inr c \<and>
        \<not> truthy c \<and> (\<forall>j<maxRetries. isl (subtitles R j)) \<and>
        timedtext R = Response True status (Inr xml) \<longrightarrow>
        fst (getTranscript P R videoId lang w) = Inr (extractTextContent xml) \<and>
        (writeFails w (cacheFilePath P videoId lang) \<longrightarrow>
           LogCacheWriteFailed \<in> set (console (snd (getTranscript P R videoId lang w))))"
      using fallback by blast
    show "\<forall>e. fst (getTranscript P R videoId lang w) = Inl e \<longrightarrow>
      fallbackFails (timedtext R) \<and> (\<forall>k<maxRetries. isl (subtitles R k)) \<and>
      (\<exists>m. e = McpError InternalError
              (''Failed to retrieve transcript after multiple attempts: '' @ m))"
      using getTranscript_error[of P R videoId lang w] by simp
  qed
qed

lemma fallbackRun_text:
  "extractTextContent
     ''<transcript><text start=1 dur=2> Hello &amp; </text><text>world</text></transcript>'' =
   ''Hello & world''"
  by (simp add: extractTextContent_def matchAll_def textSpanRx_def lineContent_def tagRx_def
      replaceAll_def unescapeEntities_def trim_def isWhiteSpace_def isLineTerminator_def)

theorem cache_failures_not_propagated_witness:
  "getCachedTranscript demoPlatform 1000 ''dQw4w9WgXcQ'' ''en''
     (freshWorld\<lparr>mkdirFails := True\<rparr>) =
     (Inr None, log LogInitFailed (freshWorld\<lparr>mkdirFails := True\<rparr>)) \<and>
   cacheTranscript demoPlatform 5000 ''dQw4w9WgXcQ'' ''en'' ''Hello world''
     (freshWorld\<lparr>mkdirFails := True\<rparr>) =
     (Inr (), log LogCacheWriteFailed (log LogInitFailed (freshWorld\<lparr>mkdirFails := True\<rparr>))) \<and>
   fst (getTranscript demoPlatform okRun ''dQw4w9WgXcQ'' ''en''
         (freshWorld\<lparr>mkdirFails := True\<rparr>)) = Inr ''Hello world'' \<and>
   writeFails (freshWorld\<lparr>writeFails := (\<lambda>p. True)\<rparr>)
     (cacheFilePath demoPlatform ''dQw4w9WgXcQ'' ''en'') \<and>
   fst (getTranscript demoPlatform retryRun ''dQw4w9WgXcQ'' ''en''
         (freshWorld\<lparr>writeFails := (\<lambda>p. True)\<rparr>)) = Inr ''Hello world'' \<and>
   LogCacheWriteFailed \<in> set (console (snd (getTranscript demoPlatform retryRun
         ''dQw4w9WgXcQ'' ''en'' (freshWorld\<lparr>writeFails := (\<lambda>p. True)\<rparr>)))) \<and>
   fst (getTranscript demoPlatform fallbackRun ''dQw4w9WgXcQ'' ''en''
         (freshWorld\<lparr>writeFails := (\<lambda>p. True)\<rparr>)) = Inr ''Hello & world'' \<and>
   LogCacheWriteFailed \<in> set (console (snd (getTranscript demoPlatform fallbackRun
         ''dQw4w9WgXcQ'' ''en'' (freshWorld\<lparr>writeFails := (\<lambda>p. True)\<rparr>))))"
proof -
  let ?w = "freshWorld\<lparr>mkdirFails := True\<rparr>"
  let ?u = "freshWorld\<lparr>writeFails := (\<lambda>p. True)\<rparr>"
  let ?v = "''dQw4w9WgXcQ''"
  let ?xml = "''<transcript><text start=1 dur=2> Hello &amp; </text><text>world</text></transcript>''"
  note init = cache_failures_not_propagated
    [where w = ?w and P = demoPlatform and videoId = ?v and lang = "''en''",
     THEN conjunct2, THEN conjunct2, THEN conjunct2, THEN conjunct1, rule_format]
  note primary = cache_failures_not_propagated
    [where P = demoPlatform and videoId = ?v and lang = "''en''",
     THEN conjunct2, THEN conjunct2, THEN conjunct2, THEN conjunct2, THEN conjunct2,
     THEN conjunct2, THEN conjunct1, rule_format]
  note fallback = cache_failures_not_propagated
    [where P = demoPlatform and videoId = ?v and lang = "''en''",
     THEN conjunct2, THEN conjunct2, THEN conjunct2, THEN conjunct2, THEN conjunct2,
     THEN conjunct2, THEN conjunct2, THEN conjunct1, rule_format]
  have h: "\<not> cacheInitialized ?w \<and> \<not> dirExists ?w \<and> mkdirFails ?w"
    by (simp add: freshWorld_def)
  have a: "getCachedTranscript demoPlatform 1000 ?v ''en'' ?w = (Inr None, log LogInitFailed ?w)"
    using init[where now = 1000, OF h] by simp
  have b: "cacheTranscript demoPlatform 5000 ?v ''en'' ''Hello world'' ?w =
             (Inr (), log LogCacheWriteFailed (log LogInitFailed ?w))"
    using init[where now = 5000 and tx = "''Hello world''", OF h] by simp
  have m: "fst (getCachedTranscript demoPlatform (nowAtLookup okRun) ?v ''en'' ?w) = Inr None \<and>
           \<not> truthy None \<and> 0 < maxRetries \<and> (\<forall>j<0. isl (subtitles okRun j)) \<and>
           subtitles okRun 0 = Inr demoLines"
    by (simp add: cache_defs demo_run_defs maxRetries_def)
  have c: "fst (getTranscript demoPlatform okRun ?v ''en'' ?w) = Inr (formatTranscript demoLines)"
    using primary[where w = ?w and R = okRun, OF m] by simp
  have wr: "writeFails ?u (cacheFilePath demoPlatform ?v ''en'')"
    by simp
  have mr: "fst (getCachedTranscript demoPlatform (nowAtLookup retryRun) ?v ''en'' ?u) = Inr None \<and>
            \<not> truthy None \<and> 2 < maxRetries \<and> (\<forall>j<2. isl (subtitles retryRun j)) \<and>
            subtitles retryRun 2 = Inr demoLines"
    by (simp add: cache_defs demo_run_defs maxRetries_def)
  have d: "fst (getTranscript demoPlatform retryRun ?v ''en'' ?u) = Inr (formatTranscript demoLines) \<and>
           LogCacheWriteFailed \<in> set (console (snd (getTranscript demoPlatform retryRun ?v ''en'' ?u)))"
    using primary[where w = ?u and R = retryRun, OF mr] wr by simp
  have mf: "fst (getCachedTranscript demoPlatform (nowAtLookup fallbackRun) ?v ''en'' ?u) = Inr None \<and>
            \<not> truthy None \<and> (\<forall>j<maxRetries. isl (subtitles fallbackRun j)) \<and>
            timedtext fallbackRun = Response True 200 (Inr ?xml)"
    by (simp add: cache_defs demo_run_defs)
  have e: "fst (getTranscript demoPlatform fallbackRun ?v ''en'' ?u) =
             Inr (extractTextContent ?xml) \<and>
           LogCacheWriteFailed \<in> set (console (snd (getTranscript demoPlatform fallbackRun ?v ''en'' ?u)))"
    using fallback[where w = ?u and R = fallbackRun, OF mf] wr by simp
  show ?thesis
    using a b c d e wr unfolding demoLines_text fallbackRun_text by blast
qed

text \<open>
  C10: whatever the primary strategy throws is an \<^verbatim>\<open>McpError\<close> of code \<^verbatim>\<open>InternalError\<close>,
  so the retry loop never leaves through the \<^verbatim>\<open>throw\<close> of its \<^verbatim>\<open>catch\<close> clause: a failed
  attempt below the maximum is followed by the next attempt, with that error as the last
  error; the loop that has used all attempts ends with the last error, and when all three
  attempts fail the fallback request is made.
\<close>

theorem primary_failures_never_abort:
  "(fst (fetchTranscriptWithCaptionsScraper P outcome videoId lang w) = Inl e \<longrightarrow>
      (\<exists>m. e = McpError InternalError m)) \<and>
   fst (primaryLoop P R videoId lang attempt lastError w) \<noteq> Rethrown e' \<and>
   (attempt < maxRetries \<and> subtitles R attempt = Inl err \<longrightarrow>
      primaryLoop P R videoId lang attempt lastError w =
        primaryLoop P R videoId lang (Suc attempt)
          (Some (fetchTranscriptWithCaptionsScraper_catch P err))
          (log (LogAttemptFailed (Suc attempt))
             (snd (primaryAttempt P R videoId lang attempt w)))) \<and>
   (\<not> attempt < maxRetries \<longrightarrow>
      primaryLoop P R videoId lang attempt lastError w = (Exhausted lastError, w)) \<and>
   (\<forall>e0 e1 e2. subtitles R 0 = Inl e0 \<and> subtitles R 1 = Inl e1 \<and> subtitles R 2 = Inl e2 \<longrightarrow>
      fst (primaryLoop P R videoId lang 0 None w) =
        Exhausted (Some (fetchTranscriptWithCaptionsScraper_catch P e2)) \<and>
      effects (snd (getTranscript_fetch P R videoId lang w)) = effects w @
        [GetSubtitles videoId lang (proxyUrl P), Sleep 1000,
         GetSubtitles videoId lang (proxyUrl P), Sleep 2000,
         GetSubtitles videoId lang (proxyUrl P),
         Fetch (timedtextUrl videoId lang) (proxyUrl P)])"
proof (intro conjI)
  show "fst (fetchTranscriptWithCaptionsScraper P outcome videoId lang w) = Inl e \<longrightarrow>
      (\<exists>m. e = McpError InternalError m)"
    using primary_error_internal[of P outcome videoId lang w e] by simp
  show "fst (primaryLoop P R videoId lang attempt lastError w) \<noteq> Rethrown e'"
    by (rule primaryLoop_never_rethrows)
  show "attempt < maxRetries \<and> subtitles R attempt = Inl err \<longrightarrow>
      primaryLoop P R videoId lang attempt lastError w =
        primaryLoop P R videoId lang (Suc attempt)
          (Some (fetchTranscriptWithCaptionsScraper_catch P err))
          (log (LogAttemptFailed (Suc attempt))
             (snd (primaryAttempt P R videoId lang attempt w)))"
    using primaryLoop_fail[of attempt R err P videoId lang lastError w] by simp
  show "\<not> attempt < maxRetries \<longrightarrow>
      primaryLoop P R videoId lang attempt lastError w = (Exhausted lastError, w)"
    using primaryLoop_end[of attempt P R videoId lang lastError w] by simp
  show "\<forall>e0 e1 e2. subtitles R 0 = Inl e0 \<and> subtitles R 1 = Inl e1 \<and>
        subtitles R 2 = Inl e2 \<longrightarrow>
      fst (primaryLoop P R videoId lang 0 None w) =
        Exhausted (Some (fetchTranscriptWithCaptionsScraper_catch P e2)) \<and>
      effects (snd (getTranscript_fetch P R videoId lang w)) = effects w @
        [GetSubtitles videoId lang (proxyUrl P), Sleep 1000,
         GetSubtitles videoId lang (proxyUrl P), Sleep 2000,
         GetSubtitles videoId lang (proxyUrl P),
         Fetch (timedtextUrl videoId lang) (proxyUrl P)]"
    using primaryLoop_all_fail(1)[of R _ _ _ P videoId lang w]
      getTranscript_fetch_all_fail(2)[of R _ _ _ P videoId lang w]
    by (intro allI impI conjI) (elim conjE, assumption)+
qed

theorem primary_failures_never_abort_witness:
  "fst (fetchTranscriptWithCaptionsScraper demoPlatform
          (Inl (Error (Some ''429 too many requests''))) ''dQw4w9WgXcQ'' ''en'' freshWorld) =
     Inl (McpError InternalError
       ''YouTube might be rate limiting or blocking this IP: 429 too many requests'') \<and>
   fst (primaryLoop demoPlatform failingRun ''dQw4w9WgXcQ'' ''en'' 0 None freshWorld) =
     Exhausted (Some (McpError InternalError
       ''Primary transcript method failed: socket hang up'')) \<and>
   effects (snd (getTranscript_fetch demoPlatform failingRun ''dQw4w9WgXcQ'' ''en''
                  freshWorld)) =
     [GetSubtitles ''dQw4w9WgXcQ'' ''en'' None, Sleep 1000,
      GetSubtitles ''dQw4w9WgXcQ'' ''en'' None, Sleep 2000,
      GetSubtitles ''dQw4w9WgXcQ'' ''en'' None,
      Fetch ''https://www.youtube.com/api/timedtext?v=dQw4w9WgXcQ&lang=en'' None]"
proof -
  have a: "fst (fetchTranscriptWithCaptionsScraper demoPlatform
          (Inl (Error (Some ''429 too many requests''))) ''dQw4w9WgXcQ'' ''en'' freshWorld) =
     Inl (McpError InternalError
       ''YouTube might be rate limiting or blocking this IP: 429 too many requests'')"
    by (simp add: fetchTranscriptWithCaptionsScraper_def Let_def
        fetchTranscriptWithCaptionsScraper_catch_def)
  have s: "subtitles failingRun 0 = Inl (Error (Some ''socket hang up'')) \<and>
           subtitles failingRun 1 = Inl (Error (Some ''socket hang up'')) \<and>
           subtitles failingRun 2 = Inl (Error (Some ''socket hang up''))"
    by (simp add: failingRun_def)
  have c: "fetchTranscriptWithCaptionsScraper_catch demoPlatform (Error (Some ''socket hang up''))
             = McpError InternalError ''Primary transcript method failed: socket hang up''"
    by (simp add: fetchTranscriptWithCaptionsScraper_catch_def)
  show ?thesis
    using a s
      primary_failures_never_abort[of demoPlatform _ "''dQw4w9WgXcQ''" "''en''" freshWorld _
        failingRun 0 None]
    by (simp add: c demo_proxy demo_effects timedtextUrl_def)
qed

section \<open>Properties of the fallback strategy's text extraction\<close>






























































end
